theory Spec2Isabelle
  imports Complex_Main
begin

section \<open>The OpenRouter client of \<open>ai_docs/openrouter-setup.md\<close> (\<open>openrouter.ts\<close>)\<close>

text \<open>
  The client is TypeScript: four functions (\<open>_buildRoutingOptions\<close>, \<open>makeOpenrouterCall\<close>,
  \<open>_callInStructuredOutputMode\<close>, \<open>_callInJSONMode\<close>) and the entry point \<open>makeLLMCall\<close>.
  Each becomes a HOL function of the same name (a leading underscore is dropped, an
  identifier cannot start with one). What the code takes from its runtime (the network,
  \<open>JSON.parse\<close>, \<open>JSON.stringify\<close>, the Zod schema object) is a parameter of the model; a
  \<open>throw\<close> is the left injection of a sum; the effects (requests sent, console lines) are
  collected in a state that every function takes and returns.
\<close>

subsection \<open>JavaScript values\<close>

text \<open>
  A number, as \<open>JSON.parse\<close> gives it and as the code makes it (a status, a length): a
  double, given by its value, or an infinity (\<open>1e999\<close> parses to one). Every finite double
  is a real number; no number here is \<open>NaN\<close>; \<open>-0\<close> is \<open>0\<close>, from which the code cannot tell
  it (both are falsy, equal to \<open>0\<close> and printed as \<open>0\<close>).
\<close>

datatype js_number =
    Finite real
  | PlusInfinity
  | MinusInfinity

definition js_int :: "int \<Rightarrow> js_number" where
  "js_int i = Finite (of_int i)"

text \<open>
  A decoded JSON value; an object is the list of its members, read with \<open>map_of\<close>.
  \<open>undefined\<close> is \<open>None\<close> of \<open>json option\<close>. A \<open>string\<close> is a list of code units below 256.
\<close>

datatype json =
    JNull
  | JBool bool
  | JNum js_number
  | JStr string
  | JArr "json list"
  | JObj "(string \<times> json) list"

text \<open>
  A thrown value: an \<open>Error\<close> instance with its \<open>name\<close> and \<open>message\<close> (\<open>new Error(m)\<close> is
  \<open>JsError ''Error'' m\<close>; the runtime's own are \<open>TypeError\<close>, \<open>SyntaxError\<close>), or any other
  value.
\<close>

datatype js_thrown =
    JsError string string
  | NonError json

fun instanceof_Error :: "js_thrown \<Rightarrow> bool" where
  "instanceof_Error (JsError n m) = True"
| "instanceof_Error (NonError v) = False"

text \<open>Truthiness, as \<open>if (x)\<close>, \<open>!x\<close>, \<open>x || y\<close> and \<open>x && y\<close> read a value.\<close>

fun truthy :: "json option \<Rightarrow> bool" where
  "truthy None = False"
| "truthy (Some JNull) = False"
| "truthy (Some (JBool b)) = b"
| "truthy (Some (JNum n)) = (n \<noteq> Finite 0)"
| "truthy (Some (JStr s)) = (s \<noteq> [])"
| "truthy (Some (JArr xs)) = True"
| "truthy (Some (JObj kvs)) = True"

text \<open>
  \<open>x.k\<close> for a member name \<open>k\<close> that no prototype defines (\<open>choices\<close>, \<open>message\<close>,
  \<open>content\<close>, \<open>error\<close>, \<open>code\<close>, \<open>metadata\<close>): reading a member of \<open>null\<close> or \<open>undefined\<close>
  throws a \<open>TypeError\<close>, a primitive or an array has no such member.
\<close>

definition cannot_read :: "string \<Rightarrow> string \<Rightarrow> js_thrown" where
  "cannot_read what k =
     JsError ''TypeError'' (''Cannot read properties of '' @ what @ '' (reading '' @ [CHR 0x27] @ k @ [CHR 0x27] @ '')'')"

fun js_member :: "json option \<Rightarrow> string \<Rightarrow> js_thrown + json option" where
  "js_member None k = Inl (cannot_read ''undefined'' k)"
| "js_member (Some JNull) k = Inl (cannot_read ''null'' k)"
| "js_member (Some (JObj kvs)) k = Inr (map_of kvs k)"
| "js_member (Some v) k = Inr None"

text \<open>\<open>x.length\<close>: arrays and strings have one, an object only as a member of its own.\<close>

fun js_length :: "json option \<Rightarrow> js_thrown + json option" where
  "js_length None = Inl (cannot_read ''undefined'' ''length'')"
| "js_length (Some JNull) = Inl (cannot_read ''null'' ''length'')"
| "js_length (Some (JArr xs)) = Inr (Some (JNum (js_int (int (length xs)))))"
| "js_length (Some (JStr s)) = Inr (Some (JNum (js_int (int (length s)))))"
| "js_length (Some (JObj kvs)) = Inr (map_of kvs ''length'')"
| "js_length (Some v) = Inr None"

text \<open>\<open>x[0]\<close>: the first element, the first character, or the member \<open>"0"\<close> of an object.\<close>

fun js_index0 :: "json option \<Rightarrow> js_thrown + json option" where
  "js_index0 None = Inl (cannot_read ''undefined'' ''0'')"
| "js_index0 (Some JNull) = Inl (cannot_read ''null'' ''0'')"
| "js_index0 (Some (JArr [])) = Inr None"
| "js_index0 (Some (JArr (x # xs))) = Inr (Some x)"
| "js_index0 (Some (JStr [])) = Inr None"
| "js_index0 (Some (JStr (c # cs))) = Inr (Some (JStr [c]))"
| "js_index0 (Some (JObj kvs)) = Inr (map_of kvs ''0'')"
| "js_index0 (Some v) = Inr None"

text \<open>
  \<open>ToString\<close>, as a template literal \<open>`${x}`\<close> and \<open>JSON.parse(x)\<close> convert their argument.
  How a number prints (\<open>Number::toString\<close>: the shortest digits that read back as the same
  double, an exponent from \<open>1e21\<close> on) is the runtime's: the function \<open>pn\<close> given here.
  An array joins its elements with commas (\<open>null\<close> prints as nothing); an object prints as
  \<open>[object Object]\<close> unless it has a member \<open>toString\<close> of its own, which is not callable
  and leaves the conversion without a primitive result: a \<open>TypeError\<close>.
\<close>

fun js_ToString :: "(js_number \<Rightarrow> string) \<Rightarrow> json \<Rightarrow> js_thrown + string"
  and js_join :: "(js_number \<Rightarrow> string) \<Rightarrow> json list \<Rightarrow> js_thrown + string" where
  "js_ToString pn JNull = Inr ''null''"
| "js_ToString pn (JBool b) = Inr (if b then ''true'' else ''false'')"
| "js_ToString pn (JNum n) = Inr (pn n)"
| "js_ToString pn (JStr s) = Inr s"
| "js_ToString pn (JArr xs) = js_join pn xs"
| "js_ToString pn (JObj kvs) =
     (if map_of kvs ''toString'' = None then Inr ''[object Object]''
      else Inl (JsError ''TypeError'' ''Cannot convert object to primitive value''))"
| "js_join pn [] = Inr ''''"
| "js_join pn (x # xs) =
     (case (if x = JNull then Inr '''' else js_ToString pn x) of
        Inl e \<Rightarrow> Inl e
      | Inr s \<Rightarrow>
          (if xs = [] then Inr s
           else (case js_join pn xs of Inl e \<Rightarrow> Inl e | Inr t \<Rightarrow> Inr (s @ '','' @ t))))"

subsection \<open>Models and routing options\<close>

datatype provider_sort = Price | Throughput | Latency

record RoutingOptions =
  providerSort :: "provider_sort option"
  providerOrder :: "string list option"
  ignoredProviders :: "string list option"

text \<open>\<open>ModelInfo\<close>; its field \<open>id\<close> is \<open>model_id\<close> here (\<open>id\<close> is the identity function of HOL).\<close>

record ModelInfo =
  model_id :: string
  supportsStructuredOutput :: bool
  defaultRoutingOptions :: "RoutingOptions option"

definition plain_model :: "string \<Rightarrow> bool \<Rightarrow> ModelInfo" where
  "plain_model i s = \<lparr>model_id = i, supportsStructuredOutput = s, defaultRoutingOptions = None\<rparr>"

definition GPT4o :: ModelInfo where
  "GPT4o = plain_model ''openai/chatgpt-4o-latest'' True"

definition GPT4_1Mini :: ModelInfo where
  "GPT4_1Mini = plain_model ''openai/gpt-4.1-mini'' True"

definition GPT4_1Nano :: ModelInfo where
  "GPT4_1Nano = plain_model ''openai/gpt-4.1-nano'' True"

definition GPT35Turbo :: ModelInfo where
  "GPT35Turbo = plain_model ''openai/gpt-3.5-turbo-0125'' False"

definition O3Mini :: ModelInfo where
  "O3Mini = plain_model ''openai/o3-mini'' True"

definition GeminiPro :: ModelInfo where
  "GeminiPro = plain_model ''google/gemini-pro-1.5'' True"

definition GeminiFlash :: ModelInfo where
  "GeminiFlash = plain_model ''google/gemini-2.0-flash-001'' True"

definition Claude :: ModelInfo where
  "Claude = plain_model ''anthropic/claude-3.5-sonnet'' True"

definition DeepseekR1 :: ModelInfo where
  "DeepseekR1 =
     \<lparr>model_id = ''deepseek/deepseek-r1'', supportsStructuredOutput = True,
      defaultRoutingOptions = Some \<lparr>providerSort = Some Price, providerOrder = None,
        ignoredProviders = Some [''InferenceNet'']\<rparr>\<rparr>"

definition DeepseekV3 :: ModelInfo where
  "DeepseekV3 =
     \<lparr>model_id = ''deepseek/deepseek-chat-v3-0324'', supportsStructuredOutput = True,
      defaultRoutingOptions = Some \<lparr>providerSort = Some Price, providerOrder = None,
        ignoredProviders = Some [''InferenceNet'']\<rparr>\<rparr>"

definition DeepseekR1DistillLlama70B :: ModelInfo where
  "DeepseekR1DistillLlama70B =
     \<lparr>model_id = ''deepseek/deepseek-r1-distill-llama-70b'', supportsStructuredOutput = True,
      defaultRoutingOptions = Some \<lparr>providerSort = Some Price, providerOrder = None,
        ignoredProviders = Some [''InferenceNet'']\<rparr>\<rparr>"

definition DeepseekR1DistillQwen32B :: ModelInfo where
  "DeepseekR1DistillQwen32B =
     \<lparr>model_id = ''deepseek/deepseek-r1-distill-qwen-32b'', supportsStructuredOutput = False,
      defaultRoutingOptions = Some \<lparr>providerSort = None, providerOrder = None,
        ignoredProviders = Some [''InferenceNet'']\<rparr>\<rparr>"

definition QwenQwq32B :: ModelInfo where
  "QwenQwq32B = plain_model ''qwen/qwq-32b'' True"

definition Models :: "(string \<times> ModelInfo) list" where
  "Models =
     [(''GPT4o'', GPT4o), (''GPT4_1Mini'', GPT4_1Mini), (''GPT4_1Nano'', GPT4_1Nano),
      (''GPT35Turbo'', GPT35Turbo), (''O3Mini'', O3Mini), (''GeminiPro'', GeminiPro),
      (''GeminiFlash'', GeminiFlash), (''Claude'', Claude), (''DeepseekR1'', DeepseekR1),
      (''DeepseekV3'', DeepseekV3), (''DeepseekR1DistillLlama70B'', DeepseekR1DistillLlama70B),
      (''DeepseekR1DistillQwen32B'', DeepseekR1DistillQwen32B), (''QwenQwq32B'', QwenQwq32B)]"

subsection \<open>\<open>_buildRoutingOptions\<close>\<close>

text \<open>
  The provider preferences of a request: \<open>require_parameters\<close> and the three keys \<open>sort\<close>,
  \<open>order\<close>, \<open>ignore\<close>, each present (\<open>Some\<close>) or not.
\<close>

record provider_prefs =
  require_parameters :: bool
  sort_field :: "provider_sort option"
  order_field :: "string list option"
  ignore_field :: "string list option"

text \<open>\<open>a ?? b\<close> and \<open>o?.f\<close>.\<close>

definition nullish :: "'a option \<Rightarrow> 'a option \<Rightarrow> 'a option" where
  "nullish a b = (case a of Some v \<Rightarrow> Some v | None \<Rightarrow> b)"

definition opt_chain :: "'r option \<Rightarrow> ('r \<Rightarrow> 'a option) \<Rightarrow> 'a option" where
  "opt_chain r f = (case r of None \<Rightarrow> None | Some x \<Rightarrow> f x)"

text \<open>
  The result is the pair \<open>(provider, models)\<close>. A \<open>provider_sort\<close> is a non-empty string,
  so \<open>if (finalSort)\<close> asks whether it is there.
\<close>

definition buildRoutingOptions ::
  "ModelInfo \<Rightarrow> ModelInfo list \<Rightarrow> RoutingOptions option \<Rightarrow> provider_prefs \<times> string list" where
  "buildRoutingOptions primaryModel backupModels overrideOptions =
     (let providerPrefs0 = \<lparr>require_parameters = True, sort_field = None,
                             order_field = None, ignore_field = None\<rparr>;
          finalSort = nullish (opt_chain overrideOptions providerSort)
                        (opt_chain (defaultRoutingOptions primaryModel) providerSort);
          finalOrder = nullish (opt_chain overrideOptions providerOrder)
                         (opt_chain (defaultRoutingOptions primaryModel) providerOrder);
          finalIgnore = nullish (opt_chain overrideOptions ignoredProviders)
                          (opt_chain (defaultRoutingOptions primaryModel) ignoredProviders);
          providerPrefs1 = (case finalSort of
                              Some s \<Rightarrow> providerPrefs0\<lparr>sort_field := Some s\<rparr>
                            | None \<Rightarrow> providerPrefs0);
          providerPrefs2 = (case finalOrder of
                              Some xs \<Rightarrow> if length xs > 0 then providerPrefs1\<lparr>order_field := Some xs\<rparr>
                                         else providerPrefs1
                            | None \<Rightarrow> providerPrefs1);
          providerPrefs3 = (case finalIgnore of
                              Some xs \<Rightarrow> if length xs > 0 then providerPrefs2\<lparr>ignore_field := Some xs\<rparr>
                                         else providerPrefs2
                            | None \<Rightarrow> providerPrefs2);
          fallbackModelIds = (if length backupModels > 0 then map model_id backupModels else [])
      in (providerPrefs3, fallbackModelIds))"

subsection \<open>The environment, the network and the state\<close>

record env =
  OPENROUTER_API_KEY :: "string option"
  SITE_URL :: "string option"
  SITE_NAME :: "string option"

definition OPENROUTER_BASE_URL :: string where
  "OPENROUTER_BASE_URL = ''https://openrouter.ai/api/v1''"

record message =
  role :: string
  content :: string

datatype response_format =
    JsonSchemaFormat string bool json
  | JsonObjectFormat

text \<open>
  The request body (\<open>response_format\<close> is \<open>{type: "json_schema", json_schema: {name, strict,
  schema}}\<close> or \<open>{type: "json_object"}\<close>) and the request that \<open>fetch\<close> is given; the body
  is kept as the object that \<open>JSON.stringify\<close> serialises.
\<close>

record request_body =
  model :: string
  messages :: "message list"
  response_format :: response_format
  provider :: provider_prefs
  models :: "string list"

record http_request =
  url :: string
  http_method :: string
  headers :: "(string \<times> string option) list"
  body :: request_body

text \<open>
  What the code reads of a response: \<open>ok\<close>, \<open>status\<close> (an integer), \<open>statusText\<close>, what
  \<open>response.json()\<close> gives (a decoded value, or a throw) and what \<open>response.text()\<close> gives
  when it is called after \<open>json()\<close> has thrown (a \<open>Response\<close> whose body \<open>json()\<close> has read
  throws there; the record leaves it to the response).
\<close>

record response =
  ok :: bool
  status :: int
  statusText :: string
  json_result :: "js_thrown + json"
  text_result :: "js_thrown + string"

datatype fetch_outcome =
    Rejected js_thrown
  | Resolved response

text \<open>
  The runtime: \<open>fetch\<close> (its answer may depend on how many requests were sent before),
  \<open>JSON.parse\<close>, \<open>JSON.stringify(v, null, 2)\<close> and the printing of a number.
\<close>

record runtime =
  fetch :: "nat \<Rightarrow> http_request \<Rightarrow> fetch_outcome"
  JSON_parse :: "string \<Rightarrow> js_thrown + json"
  JSON_stringify :: "json \<Rightarrow> string"
  Number_toString :: "js_number \<Rightarrow> string"

text \<open>
  A Zod schema, as the code uses it: \<open>zodToJsonSchema(schema)\<close>, the same with
  \<open>{removeAdditionalStrategy: "strict"}\<close>, and \<open>schema.safeParse\<close>.
\<close>

record zod_error =
  error_message :: string
  error_format :: json

datatype safe_parse_result =
    ParseSuccess json
  | ParseFailure zod_error

record zod_schema =
  zodToJsonSchema :: "js_thrown + json"
  zodToJsonSchema_strict :: "js_thrown + json"
  safeParse :: "json \<Rightarrow> safe_parse_result"

text \<open>
  The state: which of the two call helpers was entered, with which primary and backup
  models (\<open>calls\<close>); the requests given to \<open>fetch\<close> (\<open>sent\<close>); the console lines.
\<close>

datatype call_mode = StructuredMode | JsonMode

datatype console_level = ConsoleLog | ConsoleWarn | ConsoleError

text \<open>
  \<open>errorDetails\<close> of the transport: the object \<open>{code, message, metadata}\<close>, the decoded
  body, or a text.
\<close>

datatype error_details =
    StructuredDetails json json "json option"
  | DecodedBody json
  | RawText string

datatype console_arg =
    ArgValue "json option"
  | ArgThrown js_thrown
  | ArgText string
  | ArgDetails error_details

record world =
  calls :: "(call_mode \<times> ModelInfo \<times> ModelInfo list) list"
  sent :: "http_request list"
  console :: "(console_level \<times> string \<times> console_arg list) list"

definition console_write :: "console_level \<Rightarrow> string \<Rightarrow> console_arg list \<Rightarrow> world \<Rightarrow> world" where
  "console_write lvl msg args w = w\<lparr>console := console w @ [(lvl, msg, args)]\<rparr>"

definition enter_call :: "call_mode \<Rightarrow> ModelInfo \<Rightarrow> ModelInfo list \<Rightarrow> world \<Rightarrow> world" where
  "enter_call m p bs w = w\<lparr>calls := calls w @ [(m, p, bs)]\<rparr>"

text \<open>
  The \<open>catch (error)\<close> that ends each of the three functions: the error is logged, an
  \<open>Error\<close> instance is thrown again as it is, anything else is replaced.
\<close>

definition rethrow_logged ::
  "string \<Rightarrow> string \<Rightarrow> world \<times> (js_thrown + 'a) \<Rightarrow> world \<times> (js_thrown + 'a)" where
  "rethrow_logged label unknown r =
     (case r of
        (w, Inr v) \<Rightarrow> (w, Inr v)
      | (w, Inl error) \<Rightarrow>
          (console_write ConsoleError label [ArgThrown error] w,
           Inl (if instanceof_Error error then error else JsError ''Error'' unknown)))"

subsection \<open>\<open>makeOpenrouterCall\<close>\<close>

definition api_request :: "string \<Rightarrow> env \<Rightarrow> request_body \<Rightarrow> http_request" where
  "api_request key E requestBody =
     \<lparr>url = OPENROUTER_BASE_URL @ ''/chat/completions'',
      http_method = ''POST'',
      headers = [(''Authorization'', Some (''Bearer '' @ key)),
                 (''Content-Type'', Some ''application/json''),
                 (''HTTP-Referer'', SITE_URL E),
                 (''X-Title'', SITE_NAME E)],
      body = requestBody\<rparr>"

text \<open>\<open>data.choices[0].message?.content\<close> and \<open>data.choices[0].message.content\<close>, from \<open>data.choices\<close> on.\<close>

definition first_content_optional :: "json option \<Rightarrow> js_thrown + json option" where
  "first_content_optional choices =
     (case js_index0 choices of
        Inl e \<Rightarrow> Inl e
      | Inr c0 \<Rightarrow>
          (case js_member c0 ''message'' of
             Inl e \<Rightarrow> Inl e
           | Inr m \<Rightarrow> if m = None \<or> m = Some JNull then Inr None else js_member m ''content''))"

definition first_content :: "json option \<Rightarrow> js_thrown + json option" where
  "first_content choices =
     (case js_index0 choices of
        Inl e \<Rightarrow> Inl e
      | Inr c0 \<Rightarrow>
          (case js_member c0 ''message'' of
             Inl e \<Rightarrow> Inl e
           | Inr m \<Rightarrow> js_member m ''content''))"

text \<open>
  The condition
  \<open>!data.choices || data.choices.length === 0 || !data.choices[0].message?.content\<close>,
  evaluated from the left; a throw while evaluating it is \<open>Inl\<close>.
\<close>

definition no_content :: "json \<Rightarrow> js_thrown + bool" where
  "no_content data =
     (case js_member (Some data) ''choices'' of
        Inl e \<Rightarrow> Inl e
      | Inr choices \<Rightarrow>
          if \<not> truthy choices then Inr True
          else (case js_length choices of
                  Inl e \<Rightarrow> Inl e
                | Inr len \<Rightarrow>
                    if len = Some (JNum (Finite 0)) then Inr True
                    else (case first_content_optional choices of
                            Inl e \<Rightarrow> Inl e
                          | Inr c \<Rightarrow> Inr (\<not> truthy c))))"

definition EmptyCompletion :: js_thrown where
  "EmptyCompletion =
     JsError ''Error'' (''OpenRouter response was successful (200 OK) but contained no valid choices or content. ''
       @ ''This might be due to model warm-up, scaling, or content filtering. ''
       @ ''Consider retrying, adjusting prompts, or using a different model/provider.'')"

definition ConfigurationError :: js_thrown where
  "ConfigurationError = JsError ''Error'' ''OPENROUTER_API_KEY is not set in environment variables''"

text \<open>The branch \<open>if (response.ok)\<close>.\<close>

definition ok_branch :: "response \<Rightarrow> world \<Rightarrow> world \<times> (js_thrown + json option)" where
  "ok_branch r w =
     (case json_result r of
        Inl e \<Rightarrow> (w, Inl e)
      | Inr data \<Rightarrow>
          (case no_content data of
             Inl e \<Rightarrow> (w, Inl e)
           | Inr missing \<Rightarrow>
               if missing
               then (console_write ConsoleWarn
                       ''OpenRouter Warning: Response OK but no content generated.''
                       [ArgValue (Some data)] w,
                     Inl EmptyCompletion)
               else (case js_member (Some data) ''choices'' of
                       Inl e \<Rightarrow> (w, Inl e)
                     | Inr choices \<Rightarrow>
                         (case first_content choices of
                            Inl e \<Rightarrow> (w, Inl e)
                          | Inr c \<Rightarrow> (w, Inr c)))))"

text \<open>
  \<open>x.k\<close> where \<open>x\<close> is truthy (so neither \<open>null\<close> nor \<open>undefined\<close>): it cannot throw.
  \<open>a || b\<close> on values.
\<close>

fun member_of_truthy :: "json \<Rightarrow> string \<Rightarrow> json option" where
  "member_of_truthy (JObj kvs) k = map_of kvs k"
| "member_of_truthy v k = None"

definition or_else :: "json option \<Rightarrow> json \<Rightarrow> json" where
  "or_else a b = (case a of Some v \<Rightarrow> if truthy (Some v) then v else b | None \<Rightarrow> b)"

text \<open>
  The handling of a response that is not \<open>ok\<close>, up to \<open>finalErrorMessage\<close>: the result is
  \<open>(errorCode, errorMessage, errorDetails)\<close> and the console line written. \<open>status_line\<close> is
  the template \<open>`OpenRouter API Error (${response.status}): ...`\<close>.
\<close>

definition status_line :: "runtime \<Rightarrow> response \<Rightarrow> string \<Rightarrow> string" where
  "status_line X r what =
     ''OpenRouter API Error ('' @ Number_toString X (js_int (status r)) @ ''): '' @ what"

definition read_error_body ::
  "runtime \<Rightarrow> response \<Rightarrow> json \<times> json \<times> error_details \<times> string" where
  "read_error_body X r =
     (let errorCode = JNum (js_int (status r));
          errorMessage = JStr (statusText r)
      in case json_result r of
           Inr errorJson \<Rightarrow>
             (case (if truthy (Some errorJson) then member_of_truthy errorJson ''error'' else None) of
                None \<Rightarrow>
                  (errorCode, errorMessage, DecodedBody errorJson,
                   status_line X r ''Non-standard JSON response'')
              | Some err \<Rightarrow>
                  if truthy (Some err)
                  then (let errorCode' = or_else (member_of_truthy err ''code'') errorCode;
                            errorMessage' = or_else (member_of_truthy err ''message'') errorMessage
                        in (errorCode', errorMessage',
                            StructuredDetails errorCode' errorMessage' (member_of_truthy err ''metadata''),
                            ''OpenRouter API Structured Error:''))
                  else (errorCode, errorMessage, DecodedBody errorJson,
                        status_line X r ''Non-standard JSON response''))
         | Inl jsonError \<Rightarrow>
             (errorCode, errorMessage,
              (case text_result r of
                 Inr t \<Rightarrow> RawText t
               | Inl textError \<Rightarrow> RawText ''<Could not read error body>''),
              status_line X r ''Raw text response''))"

text \<open>
  \<open>throw new Error(`OpenRouter API request failed (${errorCode}): ${errorMessage}`)\<close>:
  \<open>RemoteApiError\<close> is the \<open>Error\<close>, \<open>request_failed\<close> what the statement throws, which is the
  \<open>TypeError\<close> of a conversion when \<open>errorCode\<close> or \<open>errorMessage\<close> has no string.
\<close>

definition RemoteApiError :: "string \<Rightarrow> string \<Rightarrow> js_thrown" where
  "RemoteApiError c m = JsError ''Error'' (''OpenRouter API request failed ('' @ c @ ''): '' @ m)"

definition request_failed :: "runtime \<Rightarrow> json \<Rightarrow> json \<Rightarrow> js_thrown" where
  "request_failed X errorCode errorMessage =
     (case js_ToString (Number_toString X) errorCode of
        Inl e \<Rightarrow> e
      | Inr c \<Rightarrow>
          (case js_ToString (Number_toString X) errorMessage of
             Inl e \<Rightarrow> e
           | Inr m \<Rightarrow> RemoteApiError c m))"

definition error_branch ::
  "runtime \<Rightarrow> response \<Rightarrow> world \<Rightarrow> world \<times> (js_thrown + json option)" where
  "error_branch X r w =
     (case read_error_body X r of
        (errorCode, errorMessage, errorDetails, line) \<Rightarrow>
          (console_write ConsoleError line [ArgDetails errorDetails] w,
           Inl (request_failed X errorCode errorMessage)))"

text \<open>The \<open>try\<close> block: one \<open>fetch\<close>, then one of the two branches.\<close>

definition send_request ::
  "string \<Rightarrow> env \<Rightarrow> runtime \<Rightarrow> request_body \<Rightarrow> world \<Rightarrow> world \<times> (js_thrown + json option)" where
  "send_request key E X requestBody w =
     (let request = api_request key E requestBody;
          w' = w\<lparr>sent := sent w @ [request]\<rparr>
      in case fetch X (length (sent w)) request of
           Rejected e \<Rightarrow> (w', Inl e)
         | Resolved r \<Rightarrow> if ok r then ok_branch r w' else error_branch X r w')"

text \<open>\<open>!OPENROUTER_API_KEY\<close> holds of \<open>undefined\<close> and of the empty string.\<close>

definition makeOpenrouterCall ::
  "env \<Rightarrow> runtime \<Rightarrow> request_body \<Rightarrow> world \<Rightarrow> world \<times> (js_thrown + json option)" where
  "makeOpenrouterCall E X requestBody w =
     (case OPENROUTER_API_KEY E of
        None \<Rightarrow> (w, Inl ConfigurationError)
      | Some key \<Rightarrow>
          if key = [] then (w, Inl ConfigurationError)
          else rethrow_logged ''Error during _makeOpenrouterCall execution:''
                 ''An unknown error occurred during the OpenRouter API call process.''
                 (send_request key E X requestBody w))"

subsection \<open>Cleaning the content in JSON mode\<close>

text \<open>
  \<open>.replace(/^```json\n?/, '')\<close>: the fence at the very start goes, with the newline
  after it if there is one.
\<close>

definition strip_leading_fence :: "string \<Rightarrow> string" where
  "strip_leading_fence s =
     (if take 7 s = ''```json''
      then (case drop 7 s of
              [] \<Rightarrow> []
            | c # cs \<Rightarrow> if c = CHR 0x0A then cs else c # cs)
      else s)"

text \<open>
  \<open>.replace(/\n?```$/, '')\<close>: \<open>$\<close> is the end of the input (no \<open>m\<close> flag), and the
  leftmost match takes the newline before the fence when there is one.
\<close>

definition strip_trailing_fence :: "string \<Rightarrow> string" where
  "strip_trailing_fence s =
     (if 4 \<le> length s \<and> drop (length s - 4) s = ''\<newline>```'' then take (length s - 4) s
      else if 3 \<le> length s \<and> drop (length s - 3) s = ''```'' then take (length s - 3) s
      else s)"

text \<open>
  \<open>.trim()\<close>: the white space and line terminators among the code units below 256 are
  tab, line feed, vertical tab, form feed, carriage return, space and no-break space.
\<close>

definition is_white_space :: "char \<Rightarrow> bool" where
  "is_white_space c =
     (c = CHR 0x09 \<or> c = CHR 0x0A \<or> c = CHR 0x0B \<or> c = CHR 0x0C \<or> c = CHR 0x0D
      \<or> c = CHR 0x20 \<or> c = CHR 0xA0)"

definition trim :: "string \<Rightarrow> string" where
  "trim s = rev (dropWhile is_white_space (rev (dropWhile is_white_space s)))"

definition cleanedContent :: "string \<Rightarrow> string" where
  "cleanedContent rawContentString = trim (strip_trailing_fence (strip_leading_fence rawContentString))"

subsection \<open>\<open>_callInStructuredOutputMode\<close>\<close>

text \<open>\<open>s || d\<close> on an optional string, and a parameter's default value.\<close>

definition string_or :: "string option \<Rightarrow> string \<Rightarrow> string" where
  "string_or s d = (case s of None \<Rightarrow> d | Some t \<Rightarrow> if t = [] then d else t)"

definition default_to :: "'a \<Rightarrow> 'a option \<Rightarrow> 'a" where
  "default_to d x = (case x of None \<Rightarrow> d | Some v \<Rightarrow> v)"

definition ToString_value :: "runtime \<Rightarrow> json option \<Rightarrow> js_thrown + string" where
  "ToString_value X v =
     (case v of None \<Rightarrow> Inr ''undefined'' | Some j \<Rightarrow> js_ToString (Number_toString X) j)"

definition structured_request ::
  "string \<Rightarrow> string \<Rightarrow> ModelInfo \<Rightarrow> ModelInfo list \<Rightarrow> json \<Rightarrow> string
     \<Rightarrow> RoutingOptions option \<Rightarrow> request_body" where
  "structured_request systemPrompt userPrompt primaryModel backupModels finalJsonSchema schemaName
     routingOptions =
     (case buildRoutingOptions primaryModel backupModels routingOptions of
        (providerPrefs, fallbackModelIds) \<Rightarrow>
          \<lparr>model = model_id primaryModel,
           messages = [\<lparr>role = ''system'', content = systemPrompt\<rparr>,
                       \<lparr>role = ''user'', content = userPrompt\<rparr>],
           response_format = JsonSchemaFormat schemaName True finalJsonSchema,
           provider = providerPrefs,
           models = fallbackModelIds\<rparr>)"

text \<open>The \<open>try\<close> block: the call, \<open>JSON.parse\<close>, \<open>schema.safeParse\<close>.\<close>

definition structured_try ::
  "env \<Rightarrow> runtime \<Rightarrow> zod_schema \<Rightarrow> request_body \<Rightarrow> world \<Rightarrow> world \<times> (js_thrown + json)" where
  "structured_try E X schema requestBody w =
     (case makeOpenrouterCall E X requestBody w of
        (w1, Inl e) \<Rightarrow> (w1, Inl e)
      | (w1, Inr contentString) \<Rightarrow>
          (case (case ToString_value X contentString of
                   Inl e \<Rightarrow> Inl e
                 | Inr text \<Rightarrow>
                     (case JSON_parse X text of Inl e \<Rightarrow> Inl e | Inr v \<Rightarrow> Inr (text, v))) of
             Inl parseError \<Rightarrow>
               (console_write ConsoleError
                  ''Failed to parse JSON content string from OpenRouter response:''
                  [ArgValue contentString, ArgThrown parseError] w1,
                Inl (JsError ''Error'' ''Failed to parse structured output from LLM response.''))
           | Inr (text, parsedContent) \<Rightarrow>
               (case safeParse schema parsedContent of
                  ParseFailure err \<Rightarrow>
                    (console_write ConsoleError
                       (''Raw content: '' @ text @ '' and parsed content: ''
                          @ JSON_stringify X parsedContent) []
                       (console_write ConsoleError
                          ''Zod validation failed for OpenRouter response:''
                          [ArgValue (Some (error_format err))] w1),
                     Inl (JsError ''Error''
                            (''LLM response failed Zod validation: '' @ error_message err)))
                | ParseSuccess data \<Rightarrow> (w1, Inr data))))"

text \<open>
  \<open>zodToJsonSchema(schema)\<close> is called before the \<open>try\<close>: what it throws leaves the
  function as it is.
\<close>

definition callInStructuredOutputMode ::
  "env \<Rightarrow> runtime \<Rightarrow> string \<Rightarrow> string \<Rightarrow> ModelInfo \<Rightarrow> ModelInfo list option \<Rightarrow> zod_schema
     \<Rightarrow> string option \<Rightarrow> RoutingOptions option \<Rightarrow> world \<Rightarrow> world \<times> (js_thrown + json)" where
  "callInStructuredOutputMode E X systemPrompt userPrompt primaryModel backupModels schema schemaName
     routingOptions w =
     (let backups = default_to [] backupModels;
          w0 = enter_call StructuredMode primaryModel backups w
      in case zodToJsonSchema schema of
           Inl e \<Rightarrow> (w0, Inl e)
         | Inr finalJsonSchema \<Rightarrow>
             rethrow_logged ''Error processing OpenRouter response in makeStructuredLLMCall:''
               ''An unknown error occurred processing the LLM API response.''
               (structured_try E X schema
                  (structured_request systemPrompt userPrompt primaryModel backups finalJsonSchema
                     (default_to ''response'' schemaName) routingOptions)
                  w0))"

subsection \<open>\<open>_callInJSONMode\<close>\<close>

definition json_system_prompt :: string where
  "json_system_prompt =
     ''You are an AI assistant. Your task is to respond STRICTLY with valid JSON format. ''
     @ ''Do NOT include any explanations, introductory text, or markdown code fences (like ```json). ''
     @ ''Only output the raw JSON object.''"

definition json_request ::
  "string option \<Rightarrow> string \<Rightarrow> ModelInfo \<Rightarrow> ModelInfo list \<Rightarrow> RoutingOptions option \<Rightarrow> request_body" where
  "json_request systemPrompt userPrompt primaryModel backupModels routingOptions =
     (case buildRoutingOptions primaryModel backupModels routingOptions of
        (providerPrefs, fallbackModelIds) \<Rightarrow>
          \<lparr>model = model_id primaryModel,
           messages = [\<lparr>role = ''system'', content = string_or systemPrompt json_system_prompt\<rparr>,
                       \<lparr>role = ''user'', content = userPrompt\<rparr>],
           response_format = JsonObjectFormat,
           provider = providerPrefs,
           models = fallbackModelIds\<rparr>)"

definition MalformedJson :: js_thrown where
  "MalformedJson = JsError ''Error'' ''Failed to parse JSON output from LLM response even after cleaning.''"

text \<open>
  The \<open>try\<close> block. \<open>rawContentString.replace\<close> is there for a string only: of any other
  value the call throws a \<open>TypeError\<close>.
\<close>

definition json_try ::
  "env \<Rightarrow> runtime \<Rightarrow> request_body \<Rightarrow> world \<Rightarrow> world \<times> (js_thrown + json)" where
  "json_try E X requestBody w =
     (case makeOpenrouterCall E X requestBody w of
        (w1, Inl e) \<Rightarrow> (w1, Inl e)
      | (w1, Inr rawContentString) \<Rightarrow>
          (case rawContentString of
             Some (JStr raw) \<Rightarrow>
               (case JSON_parse X (cleanedContent raw) of
                  Inr parsedJson \<Rightarrow> (w1, Inr parsedJson)
                | Inl parseError \<Rightarrow>
                    (console_write ConsoleError ''Raw Content received:'' [ArgText raw]
                       (console_write ConsoleError ''Cleaned Content that failed parsing:''
                          [ArgText (cleanedContent raw)]
                          (console_write ConsoleError
                             ''Failed to parse JSON content string from OpenRouter JSON mode response:''
                             [ArgThrown parseError] w1)),
                     Inl MalformedJson))
           | None \<Rightarrow> (w1, Inl (cannot_read ''undefined'' ''replace''))
           | Some JNull \<Rightarrow> (w1, Inl (cannot_read ''null'' ''replace''))
           | Some v \<Rightarrow>
               (w1, Inl (JsError ''TypeError'' ''rawContentString.replace is not a function''))))"

definition callInJSONMode ::
  "env \<Rightarrow> runtime \<Rightarrow> string option \<Rightarrow> string \<Rightarrow> ModelInfo \<Rightarrow> ModelInfo list option
     \<Rightarrow> RoutingOptions option \<Rightarrow> world \<Rightarrow> world \<times> (js_thrown + json)" where
  "callInJSONMode E X systemPrompt userPrompt primaryModel backupModels routingOptions w =
     (let backups = default_to [] backupModels
      in rethrow_logged ''Error during makeJSONLLMCall:''
           ''An unknown error occurred during the JSON LLM API call.''
           (json_try E X (json_request systemPrompt userPrompt primaryModel backups routingOptions)
              (enter_call JsonMode primaryModel backups w)))"

subsection \<open>\<open>makeLLMCall\<close>\<close>

record llm_call =
  systemPrompt :: "string option"
  userPrompt :: string
  primaryModel :: ModelInfo
  backupModels :: "ModelInfo list option"
  schema :: "zod_schema option"
  schemaName :: "string option"
  forceJsonMode :: "bool option"
  routingOptions :: "RoutingOptions option"

definition structured_system_prompt :: string where
  "structured_system_prompt =
     ''You are a helpful AI assistant designed to output structured data according to the provided schema.''"

text \<open>
  The second half of \<open>makeLLMCall\<close>, from the comment "Determine why JSON mode was forced":
  the reason is logged, the schema (if any) is added to the prompt as a hint, and
  \<open>_callInJSONMode\<close> is called with the primary and backup models as they are by then.
\<close>

definition json_mode_reason :: "llm_call \<Rightarrow> ModelInfo \<Rightarrow> world \<Rightarrow> world" where
  "json_mode_reason a primary w =
     (if default_to False (forceJsonMode a)
      then console_write ConsoleLog
             (''forceJsonMode is true. Forcing JSON object mode for model: '' @ model_id primary) [] w
      else if \<not> supportsStructuredOutput primary
      then console_write ConsoleWarn
             (''Model '' @ model_id primary
                @ '' does not support structured output. Falling back to JSON object mode.'') [] w
      else if schema a = None
      then console_write ConsoleWarn
             (''Schema not provided. Falling back to JSON object mode for model: ''
                @ model_id primary @ ''.'') [] w
      else w)"

definition prompt_with_hint :: "runtime \<Rightarrow> llm_call \<Rightarrow> world \<Rightarrow> string \<times> world" where
  "prompt_with_hint X a w =
     (case schema a of
        None \<Rightarrow> (userPrompt a, w)
      | Some sch \<Rightarrow>
          (case zodToJsonSchema_strict sch of
             Inr jsonSchemaForHint \<Rightarrow>
               (userPrompt a
                  @ ''\<newline>\<newline>--- JSON STRUCTURE HINT --- Please try to follow this structure:\<newline>''
                  @ JSON_stringify X jsonSchemaForHint
                  @ ''\<newline>--- END JSON STRUCTURE HINT ---'',
                console_write ConsoleLog ''Added schema hint to prompt for JSON object mode.'' [] w)
           | Inl schemaError \<Rightarrow>
               (userPrompt a,
                console_write ConsoleError
                  ''Failed to generate JSON schema for hint, proceeding without hint:''
                  [ArgThrown schemaError] w)))"

definition json_mode_tail ::
  "env \<Rightarrow> runtime \<Rightarrow> llm_call \<Rightarrow> ModelInfo \<Rightarrow> ModelInfo list \<Rightarrow> world \<Rightarrow> world \<times> (js_thrown + json)" where
  "json_mode_tail E X a primary backups w =
     (case prompt_with_hint X a (json_mode_reason a primary w) of
        (promptForJsonMode, w') \<Rightarrow>
          callInJSONMode E X (systemPrompt a) promptForJsonMode primary (Some backups)
            (routingOptions a) w')"

text \<open>
  The condition \<open>primaryModel.supportsStructuredOutput && schema && !forceJsonMode\<close>: the
  schema to use when it holds, \<open>None\<close> when it does not.
\<close>

definition structured_schema :: "llm_call \<Rightarrow> zod_schema option" where
  "structured_schema a =
     (if supportsStructuredOutput (primaryModel a) \<and> schema a \<noteq> None
         \<and> \<not> default_to False (forceJsonMode a)
      then schema a else None)"

text \<open>The call of \<open>_callInStructuredOutputMode\<close> in the first half, after its log line.\<close>

definition structured_attempt ::
  "env \<Rightarrow> runtime \<Rightarrow> llm_call \<Rightarrow> zod_schema \<Rightarrow> world \<Rightarrow> world \<times> (js_thrown + json)" where
  "structured_attempt E X a sch w =
     callInStructuredOutputMode E X
       (string_or (systemPrompt a) structured_system_prompt) (userPrompt a)
       (primaryModel a) (Some (default_to [] (backupModels a))) sch
       (Some (default_to ''response'' (schemaName a))) (routingOptions a)
       (console_write ConsoleLog
          (''Using structured output mode for model: '' @ model_id (primaryModel a)) [] w)"

definition makeLLMCall :: "env \<Rightarrow> runtime \<Rightarrow> llm_call \<Rightarrow> world \<Rightarrow> world \<times> (js_thrown + json)" where
  "makeLLMCall E X a w =
     (let primary = primaryModel a;
          backups = default_to [] (backupModels a)
      in case structured_schema a of
           None \<Rightarrow> json_mode_tail E X a primary backups w
         | Some sch \<Rightarrow>
             (case structured_attempt E X a sch w of
                (w1, Inr v) \<Rightarrow> (w1, Inr v)
              | (w1, Inl error) \<Rightarrow>
                  (let w2 = console_write ConsoleError
                              (''Structured output call failed for model '' @ model_id primary
                                 @ ''. Falling back to JSON mode. Error:'')
                              [ArgThrown error] w1
                   in case backups of
                        [] \<Rightarrow> json_mode_tail E X a primary [] w2
                      | b # rest \<Rightarrow>
                          json_mode_tail E X a b rest
                            (console_write ConsoleLog
                               (''Swapped primary model to '' @ model_id b
                                  @ '' for JSON mode fallback.'') [] w2))))"

subsection \<open>Notions of the specification\<close>

text \<open>
  The value of a routing field as the specification resolves it: the caller's override
  when one is supplied, otherwise the default of the primary model.
\<close>

definition resolved_option ::
  "RoutingOptions option \<Rightarrow> ModelInfo \<Rightarrow> (RoutingOptions \<Rightarrow> 'a option) \<Rightarrow> 'a option" where
  "resolved_option ov p f =
     (case opt_chain ov f of
        Some v \<Rightarrow> Some v
      | None \<Rightarrow> opt_chain (defaultRoutingOptions p) f)"

text \<open>
  What one call of \<open>makeLLMCall\<close> adds to \<open>calls\<close>, and the modes of these attempts in
  order.
\<close>

definition new_calls ::
  "env \<Rightarrow> runtime \<Rightarrow> llm_call \<Rightarrow> world \<Rightarrow> (call_mode \<times> ModelInfo \<times> ModelInfo list) list" where
  "new_calls E X a w = drop (length (calls w)) (calls (fst (makeLLMCall E X a w)))"

definition modes_attempted :: "env \<Rightarrow> runtime \<Rightarrow> llm_call \<Rightarrow> world \<Rightarrow> call_mode list" where
  "modes_attempted E X a w = map fst (new_calls E X a w)"

subsection \<open>Sample inputs\<close>

definition env_with_key :: env where
  "env_with_key =
     \<lparr>OPENROUTER_API_KEY = Some ''sk-or-test'', SITE_URL = Some ''https://example.org'',
      SITE_NAME = Some ''example''\<rparr>"

definition env_without_key :: env where
  "env_without_key = \<lparr>OPENROUTER_API_KEY = None, SITE_URL = None, SITE_NAME = None\<rparr>"

text \<open>
  A stand-in for \<open>JSON.parse\<close> that knows one document; a stand-in for the printing of
  numbers that knows the integers below \<open>2^53\<close> in absolute value (their decimal digits, as
  JavaScript prints them); and a runtime whose \<open>fetch\<close> always answers the same.
\<close>

definition sample_parse :: "string \<Rightarrow> js_thrown + json" where
  "sample_parse s =
     (if s = ''{\"a\":1}'' then Inr (JObj [(''a'', JNum (Finite 1))])
      else Inl (JsError ''SyntaxError'' ''Unexpected token''))"

fun dec_nat :: "nat \<Rightarrow> string" where
  "dec_nat n =
     (if n < 10 then [''0123456789'' ! n]
      else dec_nat (n div 10) @ [''0123456789'' ! (n mod 10)])"

declare dec_nat.simps [simp del]

definition dec_int :: "int \<Rightarrow> string" where
  "dec_int i = (if i < 0 then CHR ''-'' # dec_nat (nat (- i)) else dec_nat (nat i))"

definition sample_number_string :: "js_number \<Rightarrow> string" where
  "sample_number_string n =
     (case n of
        Finite x \<Rightarrow>
          if x = of_int \<lfloor>x\<rfloor> \<and> \<bar>x\<bar> < 2 ^ 53 then dec_int \<lfloor>x\<rfloor> else ''(not a small integer)''
      | PlusInfinity \<Rightarrow> ''Infinity''
      | MinusInfinity \<Rightarrow> ''-Infinity'')"

definition answering :: "fetch_outcome \<Rightarrow> runtime" where
  "answering out =
     \<lparr>fetch = (\<lambda>n request. out), JSON_parse = sample_parse, JSON_stringify = (\<lambda>v. ''{}''),
      Number_toString = sample_number_string\<rparr>"

definition http_ok :: "json \<Rightarrow> response" where
  "http_ok data =
     \<lparr>ok = True, status = 200, statusText = ''OK'', json_result = Inr data,
      text_result = Inl (JsError ''TypeError'' ''Body has already been read'')\<rparr>"

definition http_error :: "int \<Rightarrow> string \<Rightarrow> js_thrown + json \<Rightarrow> js_thrown + string \<Rightarrow> response" where
  "http_error st txt j t =
     \<lparr>ok = False, status = st, statusText = txt, json_result = j, text_result = t\<rparr>"

definition completion :: "json \<Rightarrow> json" where
  "completion c = JObj [(''choices'', JArr [JObj [(''message'', JObj [(''content'', c)])]])]"

text \<open>HTTP 429 with the body \<open>{"error": {"code": 429, "message": "rate limited", "metadata": ...}}\<close>.\<close>

definition rate_limited :: "json option \<Rightarrow> response" where
  "rate_limited metadata =
     http_error 429 ''Too Many Requests''
       (Inr (JObj [(''error'',
                    JObj ([(''code'', JNum (Finite 429)), (''message'', JStr ''rate limited'')]
                          @ (case metadata of None \<Rightarrow> [] | Some v \<Rightarrow> [(''metadata'', v)])))]))
       (Inl (JsError ''TypeError'' ''Body has already been read''))"

definition world0 :: world where
  "world0 = \<lparr>calls = [], sent = [], console = []\<rparr>"

definition sample_request :: request_body where
  "sample_request = json_request None ''Return a JSON object.'' GPT4o [] None"

text \<open>A schema whose \<open>safeParse\<close> rejects every value.\<close>

definition rejecting_schema :: zod_schema where
  "rejecting_schema =
     \<lparr>zodToJsonSchema = Inr (JObj []), zodToJsonSchema_strict = Inr (JObj []),
      safeParse = (\<lambda>v. ParseFailure \<lparr>error_message = ''Required'', error_format = JObj []\<rparr>)\<rparr>"

definition sample_call :: "ModelInfo \<Rightarrow> ModelInfo list \<Rightarrow> zod_schema option \<Rightarrow> bool option \<Rightarrow> llm_call" where
  "sample_call p bs sch force =
     \<lparr>systemPrompt = None, userPrompt = ''Return a JSON object.'', primaryModel = p,
      backupModels = Some bs, schema = sch, schemaName = None, forceJsonMode = force,
      routingOptions = None\<rparr>"


section \<open>Properties\<close>

declare js_int_def [simp]

subsection \<open>The routing policy builder\<close>

lemma buildRoutingOptions_fields:
  "require_parameters (fst (buildRoutingOptions p bs ov)) = True"
  "sort_field (fst (buildRoutingOptions p bs ov)) =
     nullish (opt_chain ov providerSort) (opt_chain (defaultRoutingOptions p) providerSort)"
  "order_field (fst (buildRoutingOptions p bs ov)) =
     (case nullish (opt_chain ov providerOrder) (opt_chain (defaultRoutingOptions p) providerOrder) of
        None \<Rightarrow> None
      | Some xs \<Rightarrow> if xs = [] then None else Some xs)"
  "ignore_field (fst (buildRoutingOptions p bs ov)) =
     (case nullish (opt_chain ov ignoredProviders)
             (opt_chain (defaultRoutingOptions p) ignoredProviders) of
        None \<Rightarrow> None
      | Some xs \<Rightarrow> if xs = [] then None else Some xs)"
  "snd (buildRoutingOptions p bs ov) = map model_id bs"
  by (simp_all add: buildRoutingOptions_def Let_def split: option.splits)

text \<open>
  C3, as the code has it. \<open>require_parameters\<close> is always true and the fallback ids are the
  ids of the backup models in the order given. The \<open>sort\<close> key is the caller's override when
  one is supplied, otherwise the default of the primary model, otherwise absent. The
  \<open>order\<close> and \<open>ignore\<close> keys follow the same precedence, except that the list so chosen is
  left out when it is empty: an empty override is not used as the value (and the model's
  default is not used in its place either).
\<close>

theorem C3_routing_precedence:
  "require_parameters (fst (buildRoutingOptions p bs ov)) = True
   \<and> (\<forall>s. opt_chain ov providerSort = Some s
          \<longrightarrow> sort_field (fst (buildRoutingOptions p bs ov)) = Some s)
   \<and> (opt_chain ov providerSort = None
        \<longrightarrow> sort_field (fst (buildRoutingOptions p bs ov))
              = opt_chain (defaultRoutingOptions p) providerSort)
   \<and> (\<forall>xs. opt_chain ov providerOrder = Some xs
          \<longrightarrow> order_field (fst (buildRoutingOptions p bs ov)) = (if xs = [] then None else Some xs))
   \<and> (opt_chain ov providerOrder = None
        \<longrightarrow> order_field (fst (buildRoutingOptions p bs ov))
              = (if opt_chain (defaultRoutingOptions p) providerOrder = Some [] then None
                 else opt_chain (defaultRoutingOptions p) providerOrder))
   \<and> (\<forall>xs. opt_chain ov ignoredProviders = Some xs
          \<longrightarrow> ignore_field (fst (buildRoutingOptions p bs ov)) = (if xs = [] then None else Some xs))
   \<and> (opt_chain ov ignoredProviders = None
        \<longrightarrow> ignore_field (fst (buildRoutingOptions p bs ov))
              = (if opt_chain (defaultRoutingOptions p) ignoredProviders = Some [] then None
                 else opt_chain (defaultRoutingOptions p) ignoredProviders))
   \<and> snd (buildRoutingOptions p bs ov) = map model_id bs"
  by (auto simp add: buildRoutingOptions_fields nullish_def split: option.splits)

text \<open>
  An instance: DeepseekR1 (defaults: sort by price, ignore InferenceNet) with an override
  of the sort and the order, and one backup model.
\<close>

theorem C3_routing_precedence_witness:
  "buildRoutingOptions DeepseekR1 [GPT4o]
     (Some \<lparr>providerSort = Some Latency, providerOrder = Some [''DeepInfra''],
            ignoredProviders = None\<rparr>)
   = (\<lparr>require_parameters = True, sort_field = Some Latency,
       order_field = Some [''DeepInfra''], ignore_field = Some [''InferenceNet'']\<rparr>,
      [''openai/chatgpt-4o-latest''])"
  using C3_routing_precedence [of DeepseekR1 "[GPT4o]"
      "Some \<lparr>providerSort = Some Latency, providerOrder = Some [''DeepInfra''],
             ignoredProviders = None\<rparr>"]
  by (simp add: opt_chain_def DeepseekR1_def GPT4o_def plain_model_def prod_eq_iff
      provider_prefs.equality)

text \<open>
  C3 as stated fails: the override \<open>providerOrder: []\<close> is supplied, and the preferences
  built have no \<open>order\<close> key at all instead of the override's value.
\<close>

theorem C3_counterexample:
  "opt_chain (Some \<lparr>providerSort = None, providerOrder = Some [], ignoredProviders = None\<rparr>)
     providerOrder = Some []
   \<and> order_field (fst (buildRoutingOptions GPT4o []
        (Some \<lparr>providerSort = None, providerOrder = Some [], ignoredProviders = None\<rparr>))) = None"
  by (simp add: buildRoutingOptions_fields opt_chain_def nullish_def GPT4o_def plain_model_def)

text \<open>
  C10: the preferences built never hold an empty \<open>order\<close> or \<open>ignore\<close> list. When the
  resolved value (the override if supplied, else the model's default) is the empty list,
  the key is left out; an override that is the empty list leaves the key out whatever the
  model's default is.
\<close>

theorem C10_no_empty_lists:
  "order_field (fst (buildRoutingOptions p bs ov)) \<noteq> Some []
   \<and> ignore_field (fst (buildRoutingOptions p bs ov)) \<noteq> Some []
   \<and> (resolved_option ov p providerOrder = Some []
        \<longrightarrow> order_field (fst (buildRoutingOptions p bs ov)) = None)
   \<and> (resolved_option ov p ignoredProviders = Some []
        \<longrightarrow> ignore_field (fst (buildRoutingOptions p bs ov)) = None)
   \<and> (opt_chain ov providerOrder = Some []
        \<longrightarrow> order_field (fst (buildRoutingOptions p bs ov)) = None)
   \<and> (opt_chain ov ignoredProviders = Some []
        \<longrightarrow> ignore_field (fst (buildRoutingOptions p bs ov)) = None)"
  by (auto simp add: buildRoutingOptions_fields nullish_def resolved_option_def
      split: option.splits)

text \<open>
  An instance: DeepseekR1 ignores InferenceNet by default; the override
  \<open>ignoredProviders: []\<close> leaves the \<open>ignore\<close> key out.
\<close>

theorem C10_no_empty_lists_witness:
  "opt_chain (defaultRoutingOptions DeepseekR1) ignoredProviders = Some [''InferenceNet'']
   \<and> ignore_field (fst (buildRoutingOptions DeepseekR1 []
        (Some \<lparr>providerSort = None, providerOrder = None, ignoredProviders = Some []\<rparr>))) = None"
  using C10_no_empty_lists [of DeepseekR1 "[]"
      "Some \<lparr>providerSort = None, providerOrder = None, ignoredProviders = Some []\<rparr>"]
  by (simp add: opt_chain_def DeepseekR1_def)

subsection \<open>The transport\<close>

lemma rethrow_logged_simps [simp]:
  "rethrow_logged l u (w, Inr v) = (w, Inr v)"
  "rethrow_logged l u (w, Inl (JsError n m)) =
     (console_write ConsoleError l [ArgThrown (JsError n m)] w, Inl (JsError n m))"
  "rethrow_logged l u (w, Inl (NonError j)) =
     (console_write ConsoleError l [ArgThrown (NonError j)] w, Inl (JsError ''Error'' u))"
  by (simp_all add: rethrow_logged_def)

lemma makeOpenrouterCall_no_key:
  "OPENROUTER_API_KEY E = None \<or> OPENROUTER_API_KEY E = Some [] \<Longrightarrow>
     makeOpenrouterCall E X b w = (w, Inl ConfigurationError)"
  by (auto simp add: makeOpenrouterCall_def)

lemma makeOpenrouterCall_key:
  "OPENROUTER_API_KEY E = Some key \<Longrightarrow> key \<noteq> [] \<Longrightarrow>
     makeOpenrouterCall E X b w =
       rethrow_logged ''Error during _makeOpenrouterCall execution:''
         ''An unknown error occurred during the OpenRouter API call process.''
         (send_request key E X b w)"
  by (simp add: makeOpenrouterCall_def)

lemma send_request_rejected:
  "fetch X (length (sent w)) (api_request key E b) = Rejected e \<Longrightarrow>
     send_request key E X b w = (w\<lparr>sent := sent w @ [api_request key E b]\<rparr>, Inl e)"
  by (simp add: send_request_def Let_def)

lemma send_request_resolved:
  "fetch X (length (sent w)) (api_request key E b) = Resolved r \<Longrightarrow>
     send_request key E X b w =
       (if ok r then ok_branch r (w\<lparr>sent := sent w @ [api_request key E b]\<rparr>)
        else error_branch X r (w\<lparr>sent := sent w @ [api_request key E b]\<rparr>))"
  by (simp add: send_request_def Let_def)

text \<open>
  C4: without the credential the call fails with the configuration error (the \<open>Error\<close>
  "OPENROUTER_API_KEY is not set in environment variables") and the state is the one it
  was given: nothing was sent, \<open>fetch\<close> was not called.
\<close>

theorem C4_missing_credential:
  "OPENROUTER_API_KEY E = None \<Longrightarrow>
     makeOpenrouterCall E X requestBody w = (w, Inl ConfigurationError)"
  by (simp add: makeOpenrouterCall_def)

text \<open>An instance: no key, and a network that would have answered with a completion.\<close>

theorem C4_missing_credential_witness:
  "makeOpenrouterCall env_without_key
     (answering (Resolved (http_ok (completion (JStr ''{}''))))) sample_request world0
   = (world0, Inl ConfigurationError)
   \<and> sent world0 = []"
  using C4_missing_credential [of env_without_key
      "answering (Resolved (http_ok (completion (JStr ''{}''))))" sample_request world0]
  by (simp add: env_without_key_def world0_def)

text \<open>
  Where the check of a successful response does what C5 says: no \<open>choices\<close> (or a falsy
  one), an empty array, or a first choice that is an object without a truthy
  \<open>message.content\<close> give the empty-completion error; a truthy content is returned as it
  is.
\<close>

lemma no_content_no_choices:
  "\<not> truthy (map_of kvs ''choices'') \<or> map_of kvs ''choices'' = Some (JArr []) \<Longrightarrow>
     no_content (JObj kvs) = Inr True"
  by (auto simp add: no_content_def)

lemma no_content_first_object:
  "map_of kvs ''choices'' = Some (JArr (JObj c # cs)) \<Longrightarrow>
     no_content (JObj kvs) =
       Inr (\<not> truthy (case map_of c ''message'' of
                         Some (JObj m) \<Rightarrow> map_of m ''content''
                       | _ \<Rightarrow> None))"
  by (auto simp add: no_content_def first_content_optional_def split: option.splits json.splits)

lemma first_content_first_object:
  "map_of c ''message'' = Some (JObj m) \<Longrightarrow>
     first_content (Some (JArr (JObj c # cs))) = Inr (map_of m ''content'')"
  by (simp add: first_content_def)

lemma transport_empty_completion:
  assumes "OPENROUTER_API_KEY E = Some key" and "key \<noteq> []"
    and "fetch X (length (sent w)) (api_request key E b) = Resolved r" and "ok r"
    and "json_result r = Inr data" and "no_content data = Inr True"
  shows "snd (makeOpenrouterCall E X b w) = Inl EmptyCompletion"
  using assms
  by (simp add: makeOpenrouterCall_key send_request_resolved ok_branch_def EmptyCompletion_def)

lemma transport_content:
  assumes "OPENROUTER_API_KEY E = Some key" and "key \<noteq> []"
    and "fetch X (length (sent w)) (api_request key E b) = Resolved r" and "ok r"
    and "json_result r = Inr (JObj kvs)"
    and "map_of kvs ''choices'' = Some (JArr (JObj c # cs))"
    and "map_of c ''message'' = Some (JObj m)"
    and "map_of m ''content'' = Some v" and "truthy (Some v)"
  shows "makeOpenrouterCall E X b w = (w\<lparr>sent := sent w @ [api_request key E b]\<rparr>, Inr (Some v))"
  using assms
  by (simp add: makeOpenrouterCall_key send_request_resolved ok_branch_def
      no_content_first_object first_content_first_object)

text \<open>
  C5 at the response \<open>200 OK\<close> with the body \<open>{"choices": [null]}\<close>, which has no content:
  \<open>data.choices\<close> is a non-empty array, and \<open>data.choices[0].message\<close> reads a member of
  \<open>null\<close>. The call fails with that \<open>TypeError\<close>, not with the empty-completion error.
\<close>

theorem C5_null_first_choice:
  "snd (makeOpenrouterCall env_with_key
          (answering (Resolved (http_ok (JObj [(''choices'', JArr [JNull])]))))
          sample_request world0)
     = Inl (JsError ''TypeError'' ''Cannot read properties of null (reading 'message')'')
   \<and> snd (makeOpenrouterCall env_with_key
          (answering (Resolved (http_ok (JObj [(''choices'', JArr [JNull])]))))
          sample_request world0)
     \<noteq> Inl EmptyCompletion"
  by (simp add: makeOpenrouterCall_def send_request_def env_with_key_def answering_def
      http_ok_def ok_branch_def no_content_def EmptyCompletion_def rethrow_logged_def Let_def
      first_content_optional_def cannot_read_def)

lemma js_ToString_throws_Error:
  "(js_ToString pn j = Inl e \<longrightarrow> instanceof_Error e)"
  "(js_join pn js = Inl e \<longrightarrow> instanceof_Error e)"
  by (induction pn j and pn js rule: js_ToString_js_join.induct)
     (auto split: sum.splits if_splits)

lemma request_failed_Error: "instanceof_Error (request_failed X code msg)"
  using js_ToString_throws_Error(1) [of "Number_toString X"]
  by (auto simp add: request_failed_def RemoteApiError_def split: sum.splits)

lemma request_failed_cases:
  "js_ToString (Number_toString X) code = Inl e \<Longrightarrow> request_failed X code msg = e"
  "js_ToString (Number_toString X) code = Inr c \<Longrightarrow> js_ToString (Number_toString X) msg = Inl e
     \<Longrightarrow> request_failed X code msg = e"
  "js_ToString (Number_toString X) code = Inr c \<Longrightarrow> js_ToString (Number_toString X) msg = Inr m
     \<Longrightarrow> request_failed X code msg = RemoteApiError c m"
  by (simp_all add: request_failed_def)

lemma request_failed_status:
  "request_failed X (JNum n) (JStr t) = RemoteApiError (Number_toString X n) t"
  by (simp add: request_failed_def)

lemma makeOpenrouterCall_not_ok:
  assumes "OPENROUTER_API_KEY E = Some key" and "key \<noteq> []"
    and "fetch X (length (sent w)) (api_request key E b) = Resolved r" and "\<not> ok r"
    and "read_error_body X r = (code, msg, details, line)"
  shows "makeOpenrouterCall E X b w =
           (console_write ConsoleError ''Error during _makeOpenrouterCall execution:''
              [ArgThrown (request_failed X code msg)]
              (console_write ConsoleError line [ArgDetails details]
                 (w\<lparr>sent := sent w @ [api_request key E b]\<rparr>)),
            Inl (request_failed X code msg))"
  using assms request_failed_Error [of X code msg]
  by (simp add: makeOpenrouterCall_key send_request_resolved error_branch_def rethrow_logged_def)

lemma read_error_body_structured:
  assumes "json_result r = Inr ej" and "truthy (Some ej)"
    and "member_of_truthy ej ''error'' = Some err" and "truthy (Some err)"
  shows "read_error_body X r =
           (or_else (member_of_truthy err ''code'') (JNum (js_int (status r))),
            or_else (member_of_truthy err ''message'') (JStr (statusText r)),
            StructuredDetails (or_else (member_of_truthy err ''code'') (JNum (js_int (status r))))
              (or_else (member_of_truthy err ''message'') (JStr (statusText r)))
              (member_of_truthy err ''metadata''),
            ''OpenRouter API Structured Error:'')"
  using assms by (simp add: read_error_body_def Let_def)

lemma read_error_body_nonstandard:
  assumes "json_result r = Inr ej"
    and "\<not> (truthy (Some ej) \<and> truthy (member_of_truthy ej ''error''))"
  shows "read_error_body X r =
           (JNum (js_int (status r)), JStr (statusText r), DecodedBody ej,
            status_line X r ''Non-standard JSON response'')"
  using assms by (auto simp add: read_error_body_def Let_def split: option.splits)

lemma read_error_body_text:
  assumes "json_result r = Inl e"
  shows "read_error_body X r =
           (JNum (js_int (status r)), JStr (statusText r),
            RawText (case text_result r of Inr t \<Rightarrow> t | Inl e' \<Rightarrow> ''<Could not read error body>''),
            status_line X r ''Raw text response'')"
  using assms by (auto simp add: read_error_body_def Let_def split: sum.splits)

lemma sample_number_429: "sample_number_string (Finite 429) = ''429''"
  by (simp add: sample_number_string_def dec_int_def dec_nat.simps)

text \<open>
  C6, as the code has it. For a response that is not \<open>ok\<close> the code fixes a code and a
  message and throws what \<open>new Error(`OpenRouter API request failed (${code}): ${message}`)\<close>
  gives: the \<open>Error\<close> with that message and nothing else, when code and message convert to
  strings. When the body is JSON with a truthy \<open>error\<close> member, the code is \<open>error.code\<close> if
  that is truthy and the HTTP status otherwise, the message is \<open>error.message\<close> if truthy and
  the status text otherwise, and the object \<open>{code, message, metadata}\<close> is written to the
  console. When the body is JSON of another shape, code and message are the HTTP status and
  status text and the decoded body is written to the console. When the body is not JSON,
  code and message are the same and the console gets the raw text, or
  "<Could not read error body>" when the text cannot be read. The console is the only place
  the metadata, the decoded body and the raw text go to. (The theorem also gives the case
  left out above: a code or message of the body that has no string, an object with a
  \<open>toString\<close> member of its own, makes the template throw, and that \<open>TypeError\<close> is what the
  call fails with.)
\<close>

theorem C6_remote_error_report:
  assumes "OPENROUTER_API_KEY E = Some key" and "key \<noteq> []"
    and "fetch X (length (sent w)) (api_request key E b) = Resolved r" and "\<not> ok r"
  shows
   "(\<forall>ej err.
       json_result r = Inr ej \<and> truthy (Some ej)
       \<and> member_of_truthy ej ''error'' = Some err \<and> truthy (Some err)
       \<longrightarrow> makeOpenrouterCall E X b w =
             (console_write ConsoleError ''Error during _makeOpenrouterCall execution:''
                [ArgThrown (request_failed X
                   (or_else (member_of_truthy err ''code'') (JNum (js_int (status r))))
                   (or_else (member_of_truthy err ''message'') (JStr (statusText r))))]
                (console_write ConsoleError ''OpenRouter API Structured Error:''
                   [ArgDetails (StructuredDetails
                      (or_else (member_of_truthy err ''code'') (JNum (js_int (status r))))
                      (or_else (member_of_truthy err ''message'') (JStr (statusText r)))
                      (member_of_truthy err ''metadata''))]
                   (w\<lparr>sent := sent w @ [api_request key E b]\<rparr>)),
              Inl (request_failed X
                     (or_else (member_of_truthy err ''code'') (JNum (js_int (status r))))
                     (or_else (member_of_truthy err ''message'') (JStr (statusText r))))))
    \<and> (\<forall>code msg c m.
          js_ToString (Number_toString X) code = Inr c
          \<and> js_ToString (Number_toString X) msg = Inr m
          \<longrightarrow> request_failed X code msg = RemoteApiError c m)
    \<and> (\<forall>code msg e.
          js_ToString (Number_toString X) code = Inl e
          \<longrightarrow> request_failed X code msg = e \<and> instanceof_Error e)
    \<and> (\<forall>code msg c e.
          js_ToString (Number_toString X) code = Inr c
          \<and> js_ToString (Number_toString X) msg = Inl e
          \<longrightarrow> request_failed X code msg = e \<and> instanceof_Error e)
    \<and> (\<forall>ej.
       json_result r = Inr ej \<and> \<not> (truthy (Some ej) \<and> truthy (member_of_truthy ej ''error''))
       \<longrightarrow> makeOpenrouterCall E X b w =
             (console_write ConsoleError ''Error during _makeOpenrouterCall execution:''
                [ArgThrown (RemoteApiError (Number_toString X (js_int (status r))) (statusText r))]
                (console_write ConsoleError (status_line X r ''Non-standard JSON response'')
                   [ArgDetails (DecodedBody ej)]
                   (w\<lparr>sent := sent w @ [api_request key E b]\<rparr>)),
              Inl (RemoteApiError (Number_toString X (js_int (status r))) (statusText r))))
    \<and> (\<forall>e.
       json_result r = Inl e
       \<longrightarrow> makeOpenrouterCall E X b w =
             (console_write ConsoleError ''Error during _makeOpenrouterCall execution:''
                [ArgThrown (RemoteApiError (Number_toString X (js_int (status r))) (statusText r))]
                (console_write ConsoleError (status_line X r ''Raw text response'')
                   [ArgDetails (RawText (case text_result r of
                                           Inr t \<Rightarrow> t
                                         | Inl e' \<Rightarrow> ''<Could not read error body>''))]
                   (w\<lparr>sent := sent w @ [api_request key E b]\<rparr>)),
              Inl (RemoteApiError (Number_toString X (js_int (status r))) (statusText r))))"
proof (intro conjI allI impI)
  fix ej err
  assume h: "json_result r = Inr ej \<and> truthy (Some ej)
       \<and> member_of_truthy ej ''error'' = Some err \<and> truthy (Some err)"
  then have "read_error_body X r =
           (or_else (member_of_truthy err ''code'') (JNum (js_int (status r))),
            or_else (member_of_truthy err ''message'') (JStr (statusText r)),
            StructuredDetails (or_else (member_of_truthy err ''code'') (JNum (js_int (status r))))
              (or_else (member_of_truthy err ''message'') (JStr (statusText r)))
              (member_of_truthy err ''metadata''),
            ''OpenRouter API Structured Error:'')"
    by (simp add: read_error_body_structured)
  then show "makeOpenrouterCall E X b w =
             (console_write ConsoleError ''Error during _makeOpenrouterCall execution:''
                [ArgThrown (request_failed X
                   (or_else (member_of_truthy err ''code'') (JNum (js_int (status r))))
                   (or_else (member_of_truthy err ''message'') (JStr (statusText r))))]
                (console_write ConsoleError ''OpenRouter API Structured Error:''
                   [ArgDetails (StructuredDetails
                      (or_else (member_of_truthy err ''code'') (JNum (js_int (status r))))
                      (or_else (member_of_truthy err ''message'') (JStr (statusText r)))
                      (member_of_truthy err ''metadata''))]
                   (w\<lparr>sent := sent w @ [api_request key E b]\<rparr>)),
              Inl (request_failed X
                     (or_else (member_of_truthy err ''code'') (JNum (js_int (status r))))
                     (or_else (member_of_truthy err ''message'') (JStr (statusText r)))))"
    by (rule makeOpenrouterCall_not_ok [OF assms])
next
  fix code msg c m
  assume "js_ToString (Number_toString X) code = Inr c
          \<and> js_ToString (Number_toString X) msg = Inr m"
  then show "request_failed X code msg = RemoteApiError c m"
    by (simp add: request_failed_cases)
next
  fix code msg e
  assume h: "js_ToString (Number_toString X) code = Inl e"
  then show "request_failed X code msg = e"
    by (simp add: request_failed_cases)
  show "instanceof_Error e"
    using h js_ToString_throws_Error(1) by blast
next
  fix code msg c e
  assume h: "js_ToString (Number_toString X) code = Inr c
          \<and> js_ToString (Number_toString X) msg = Inl e"
  then show "request_failed X code msg = e"
    by (simp add: request_failed_cases)
  show "instanceof_Error e"
    using h js_ToString_throws_Error(1) by blast
next
  fix ej
  assume h: "json_result r = Inr ej
       \<and> \<not> (truthy (Some ej) \<and> truthy (member_of_truthy ej ''error''))"
  then have "read_error_body X r =
           (JNum (js_int (status r)), JStr (statusText r), DecodedBody ej,
            status_line X r ''Non-standard JSON response'')"
    by (simp add: read_error_body_nonstandard)
  then show "makeOpenrouterCall E X b w =
             (console_write ConsoleError ''Error during _makeOpenrouterCall execution:''
                [ArgThrown (RemoteApiError (Number_toString X (js_int (status r))) (statusText r))]
                (console_write ConsoleError (status_line X r ''Non-standard JSON response'')
                   [ArgDetails (DecodedBody ej)]
                   (w\<lparr>sent := sent w @ [api_request key E b]\<rparr>)),
              Inl (RemoteApiError (Number_toString X (js_int (status r))) (statusText r)))"
    using makeOpenrouterCall_not_ok [OF assms] by (simp add: request_failed_status)
next
  fix e
  assume h: "json_result r = Inl e"
  then have "read_error_body X r =
           (JNum (js_int (status r)), JStr (statusText r),
            RawText (case text_result r of Inr t \<Rightarrow> t | Inl e' \<Rightarrow> ''<Could not read error body>''),
            status_line X r ''Raw text response'')"
    by (simp add: read_error_body_text)
  then show "makeOpenrouterCall E X b w =
             (console_write ConsoleError ''Error during _makeOpenrouterCall execution:''
                [ArgThrown (RemoteApiError (Number_toString X (js_int (status r))) (statusText r))]
                (console_write ConsoleError (status_line X r ''Raw text response'')
                   [ArgDetails (RawText (case text_result r of
                                           Inr t \<Rightarrow> t
                                         | Inl e' \<Rightarrow> ''<Could not read error body>''))]
                   (w\<lparr>sent := sent w @ [api_request key E b]\<rparr>)),
              Inl (RemoteApiError (Number_toString X (js_int (status r))) (statusText r)))"
    using makeOpenrouterCall_not_ok [OF assms] by (simp add: request_failed_status)
qed

text \<open>
  Instances. The scenario of the specification, HTTP 429 with the body
  \<open>{"error": {"code": 429, "message": "rate limited"}}\<close>; and HTTP 400 with the body
  \<open>{"error": {"code": {"toString": 1}, "message": "m"}}\<close>, whose code has no string.
\<close>

theorem C6_remote_error_report_witness:
  "makeOpenrouterCall env_with_key (answering (Resolved (rate_limited None))) sample_request world0
     = (console_write ConsoleError ''Error during _makeOpenrouterCall execution:''
          [ArgThrown (JsError ''Error'' ''OpenRouter API request failed (429): rate limited'')]
          (console_write ConsoleError ''OpenRouter API Structured Error:''
             [ArgDetails (StructuredDetails (JNum (Finite 429)) (JStr ''rate limited'') None)]
             (world0\<lparr>sent := [api_request ''sk-or-test'' env_with_key sample_request]\<rparr>)),
        Inl (JsError ''Error'' ''OpenRouter API request failed (429): rate limited''))
   \<and> snd (makeOpenrouterCall env_with_key
        (answering (Resolved (http_error 400 ''Bad Request''
           (Inr (JObj [(''error'', JObj [(''code'', JObj [(''toString'', JNum (Finite 1))]),
                                        (''message'', JStr ''m'')])]))
           (Inr []))))
        sample_request world0)
     = Inl (JsError ''TypeError'' ''Cannot convert object to primitive value'')"
  using C6_remote_error_report [of env_with_key "''sk-or-test''"
      "answering (Resolved (rate_limited None))" world0 sample_request "rate_limited None"]
    C6_remote_error_report [of env_with_key "''sk-or-test''"
      "answering (Resolved (http_error 400 ''Bad Request''
           (Inr (JObj [(''error'', JObj [(''code'', JObj [(''toString'', JNum (Finite 1))]),
                                        (''message'', JStr ''m'')])]))
           (Inr [])))" world0 sample_request
      "http_error 400 ''Bad Request''
           (Inr (JObj [(''error'', JObj [(''code'', JObj [(''toString'', JNum (Finite 1))]),
                                        (''message'', JStr ''m'')])]))
           (Inr [])"]
  by (simp add: env_with_key_def answering_def rate_limited_def http_error_def or_else_def
      sample_number_429 world0_def RemoteApiError_def request_failed_def)

text \<open>
  C6 as stated fails: the failure does not carry the metadata or the decoded body. Two 429
  responses that differ in \<open>error.metadata\<close> throw the same \<open>Error\<close>, whose only content is
  its message; two 500 responses with different JSON bodies of another shape throw the same
  \<open>Error\<close> as well.
\<close>

theorem C6_counterexample:
  "snd (makeOpenrouterCall env_with_key
          (answering (Resolved (rate_limited (Some (JObj [(''provider_name'', JStr ''A'')])))))
          sample_request world0)
     = Inl (JsError ''Error'' ''OpenRouter API request failed (429): rate limited'')
   \<and> snd (makeOpenrouterCall env_with_key
          (answering (Resolved (rate_limited (Some (JObj [(''provider_name'', JStr ''B'')])))))
          sample_request world0)
     = Inl (JsError ''Error'' ''OpenRouter API request failed (429): rate limited'')
   \<and> snd (makeOpenrouterCall env_with_key
          (answering (Resolved (http_error 500 ''Internal Server Error''
             (Inr (JObj [(''detail'', JStr ''A'')])) (Inr []))))
          sample_request world0)
     = snd (makeOpenrouterCall env_with_key
          (answering (Resolved (http_error 500 ''Internal Server Error''
             (Inr (JObj [(''detail'', JStr ''B'')])) (Inr []))))
          sample_request world0)"
  by (simp add: makeOpenrouterCall_def send_request_def env_with_key_def answering_def
      http_error_def rate_limited_def error_branch_def read_error_body_def or_else_def
      rethrow_logged_def Let_def sample_number_429 RemoteApiError_def request_failed_def)

text \<open>
  C7, as the code has it. What \<open>fetch\<close> throws is logged and thrown again: an \<open>Error\<close>
  instance unchanged (the same name and message, with no wrapper and no kind of its own),
  any other value replaced by the \<open>Error\<close> "An unknown error occurred during the OpenRouter
  API call process.".
\<close>

theorem C7_network_exception_rethrown:
  assumes "OPENROUTER_API_KEY E = Some key" and "key \<noteq> []"
    and "fetch X (length (sent w)) (api_request key E requestBody) = Rejected e"
  shows "makeOpenrouterCall E X requestBody w =
           (console_write ConsoleError ''Error during _makeOpenrouterCall execution:''
              [ArgThrown e] (w\<lparr>sent := sent w @ [api_request key E requestBody]\<rparr>),
            Inl (if instanceof_Error e then e
                 else JsError ''Error''
                        ''An unknown error occurred during the OpenRouter API call process.''))"
  using assms by (simp add: makeOpenrouterCall_key send_request_rejected rethrow_logged_def)

text \<open>An instance: \<open>fetch\<close> rejects with \<open>TypeError: fetch failed\<close>.\<close>

theorem C7_network_exception_rethrown_witness:
  "snd (makeOpenrouterCall env_with_key
          (answering (Rejected (JsError ''TypeError'' ''fetch failed''))) sample_request world0)
     = Inl (JsError ''TypeError'' ''fetch failed'')"
  using C7_network_exception_rethrown [of env_with_key "''sk-or-test''"
      "answering (Rejected (JsError ''TypeError'' ''fetch failed''))" world0 sample_request
      "JsError ''TypeError'' ''fetch failed''"]
  by (simp add: env_with_key_def answering_def)

text \<open>
  C7 as stated fails. The error of a network failure is not wrapped, so the caller gets
  from a rejected \<open>fetch\<close> exactly what it gets from a response handled without any network
  failure (first conjunct: a rejection with the empty-completion error, and a \<open>200 OK\<close>
  with \<open>choices: []\<close>); and a thrown value that is not an \<open>Error\<close> instance loses its
  message (second conjunct).
\<close>

theorem C7_counterexample:
  "snd (makeOpenrouterCall env_with_key (answering (Rejected EmptyCompletion))
          sample_request world0)
     = snd (makeOpenrouterCall env_with_key
              (answering (Resolved (http_ok (JObj [(''choices'', JArr [])]))))
              sample_request world0)
   \<and> snd (makeOpenrouterCall env_with_key
             (answering (Rejected (NonError (JObj [(''message'', JStr ''socket hang up'')]))))
             sample_request world0)
     = Inl (JsError ''Error'' ''An unknown error occurred during the OpenRouter API call process.'')"
  by (simp add: makeOpenrouterCall_def send_request_def env_with_key_def answering_def
      http_ok_def ok_branch_def no_content_def EmptyCompletion_def rethrow_logged_def Let_def)

subsection \<open>Cleaning the content\<close>

lemma trim_idem: "trim (trim s) = trim s"
  unfolding trim_def
  by (metis (no_types, lifting) ext dropWhile_eq_Nil_conv
    dropWhile_eq_self_iff dropWhile_last hd_dropWhile hd_rev rev_is_Nil_conv
    rev_swap)

lemma strip_leading_id: "take 7 s \<noteq> ''```json'' \<Longrightarrow> strip_leading_fence s = s"
  by (simp add: strip_leading_fence_def)

lemma newline_fence_ends_with_fence:
  assumes "4 \<le> length s" and "drop (length s - 4) s = ''\<newline>```''"
  shows "drop (length s - 3) s = ''```''"
proof -
  have "length s - 3 = 1 + (length s - 4)"
    using assms(1) by arith
  then have "drop (length s - 3) s = drop 1 (drop (length s - 4) s)"
    by (metis drop_drop)
  then show ?thesis using assms(2) by simp
qed

lemma strip_trailing_id:
  assumes "\<not> (3 \<le> length s \<and> drop (length s - 3) s = ''```'')"
  shows "strip_trailing_fence s = s"
  using assms newline_fence_ends_with_fence [of s]
  by (auto simp add: strip_trailing_fence_def)

lemma fenced_clean: "cleanedContent ''```json\<newline>{\"a\":1}\<newline>```'' = ''{\"a\":1}''"
  by (simp add: cleanedContent_def strip_leading_fence_def strip_trailing_fence_def trim_def
      is_white_space_def)

lemma prose_clean: "cleanedContent ''Sorry.'' = ''Sorry.''"
  by (simp add: cleanedContent_def strip_leading_fence_def strip_trailing_fence_def trim_def
      is_white_space_def)

text \<open>
  C9, as the code has it. The fenced input \<open>"```json\n{\"a\":1}\n```"\<close> is cleaned to
  \<open>{"a":1}\<close>, the string that the input without fences is cleaned to, so \<open>JSON.parse\<close>
  gives the same for both. Cleaning removes one fence at each end; cleaning again changes
  nothing when the cleaned text neither starts with \<open>```json\<close> nor ends with \<open>```\<close>.
\<close>

theorem C9_fence_cleaning:
  "cleanedContent ''```json\<newline>{\"a\":1}\<newline>```'' = ''{\"a\":1}''
   \<and> cleanedContent ''{\"a\":1}'' = ''{\"a\":1}''
   \<and> JSON_parse X (cleanedContent ''```json\<newline>{\"a\":1}\<newline>```'')
       = JSON_parse X (cleanedContent ''{\"a\":1}'')
   \<and> (take 7 (cleanedContent s) \<noteq> ''```json''
        \<and> \<not> (3 \<le> length (cleanedContent s)
               \<and> drop (length (cleanedContent s) - 3) (cleanedContent s) = ''```'')
        \<longrightarrow> cleanedContent (cleanedContent s) = cleanedContent s)"
proof (intro conjI impI)
  show "cleanedContent ''```json\<newline>{\"a\":1}\<newline>```'' = ''{\"a\":1}''"
    by (rule fenced_clean)
  show plain: "cleanedContent ''{\"a\":1}'' = ''{\"a\":1}''"
    by (simp add: cleanedContent_def strip_leading_fence_def strip_trailing_fence_def trim_def
        is_white_space_def)
  show "JSON_parse X (cleanedContent ''```json\<newline>{\"a\":1}\<newline>```'')
       = JSON_parse X (cleanedContent ''{\"a\":1}'')"
    by (simp only: fenced_clean plain)
next
  assume h: "take 7 (cleanedContent s) \<noteq> ''```json''
        \<and> \<not> (3 \<le> length (cleanedContent s)
               \<and> drop (length (cleanedContent s) - 3) (cleanedContent s) = ''```'')"
  then have "strip_trailing_fence (strip_leading_fence (cleanedContent s)) = cleanedContent s"
    by (simp add: strip_leading_id strip_trailing_id)
  then have "cleanedContent (cleanedContent s) = trim (cleanedContent s)"
    by (simp add: cleanedContent_def)
  also have "\<dots> = cleanedContent s"
    by (simp add: cleanedContent_def trim_idem)
  finally show "cleanedContent (cleanedContent s) = cleanedContent s" .
qed

text \<open>An instance: the fenced input of the specification, cleaned twice.\<close>

theorem C9_fence_cleaning_witness:
  "cleanedContent (cleanedContent ''```json\<newline>{\"a\":1}\<newline>```'')
     = cleanedContent ''```json\<newline>{\"a\":1}\<newline>```''"
  using C9_fence_cleaning [of "answering (Rejected (NonError JNull))"
      "''```json\<newline>{\"a\":1}\<newline>```''"]
  by (simp add: fenced_clean)

text \<open>
  C9 as stated fails: cleaning is not idempotent. Of an answer fenced twice, one cleaning
  removes the outer fences and a second one the inner fences.
\<close>

theorem C9_counterexample:
  "cleanedContent ''```json\<newline>```json\<newline>{\"a\":1}\<newline>```\<newline>```''
     = ''```json\<newline>{\"a\":1}\<newline>```''
   \<and> cleanedContent (cleanedContent ''```json\<newline>```json\<newline>{\"a\":1}\<newline>```\<newline>```'')
     = ''{\"a\":1}''"
  by (simp add: cleanedContent_def strip_leading_fence_def strip_trailing_fence_def trim_def
      is_white_space_def)

subsection \<open>The call strategy\<close>

text \<open>What each function adds to \<open>calls\<close> and to \<open>sent\<close>.\<close>

lemma rethrow_logged_fst [simp]:
  "calls (fst (rethrow_logged l u r)) = calls (fst r)"
  "sent (fst (rethrow_logged l u r)) = sent (fst r)"
  by (auto simp add: rethrow_logged_def console_write_def split: prod.splits sum.splits)

lemma rethrow_logged_snd:
  "snd (rethrow_logged l u r) =
     (case snd r of
        Inr v \<Rightarrow> Inr v
      | Inl e \<Rightarrow> Inl (if instanceof_Error e then e else JsError ''Error'' u))"
  by (auto simp add: rethrow_logged_def split: prod.splits sum.splits)

lemma console_write_fields [simp]:
  "calls (console_write l m args w) = calls w"
  "sent (console_write l m args w) = sent w"
  by (simp_all add: console_write_def)

lemma enter_call_fields [simp]:
  "calls (enter_call m p bs w) = calls w @ [(m, p, bs)]"
  "sent (enter_call m p bs w) = sent w"
  by (simp_all add: enter_call_def)

lemma ok_branch_fields [simp]:
  "calls (fst (ok_branch r w)) = calls w"
  "sent (fst (ok_branch r w)) = sent w"
  by (auto simp add: ok_branch_def split: sum.splits)

lemma error_branch_fields [simp]:
  "calls (fst (error_branch X r w)) = calls w"
  "sent (fst (error_branch X r w)) = sent w"
  by (auto simp add: error_branch_def split: prod.splits)

lemma send_request_fields [simp]:
  "calls (fst (send_request key E X b w)) = calls w"
  "sent (fst (send_request key E X b w)) = sent w @ [api_request key E b]"
  by (auto simp add: send_request_def Let_def split: fetch_outcome.splits)

lemma makeOpenrouterCall_calls [simp]:
  "calls (fst (makeOpenrouterCall E X b w)) = calls w"
  by (auto simp add: makeOpenrouterCall_def split: option.splits)

lemma makeOpenrouterCall_sent:
  "sent (fst (makeOpenrouterCall E X b w)) =
     (case OPENROUTER_API_KEY E of
        None \<Rightarrow> sent w
      | Some key \<Rightarrow> if key = [] then sent w else sent w @ [api_request key E b])"
  by (auto simp add: makeOpenrouterCall_def split: option.splits)

lemma makeOpenrouterCall_sent_key:
  "OPENROUTER_API_KEY E = Some key \<Longrightarrow> key \<noteq> [] \<Longrightarrow>
     sent (fst (makeOpenrouterCall E X b w)) = sent w @ [api_request key E b]"
  by (simp add: makeOpenrouterCall_sent)

lemma structured_try_calls [simp]:
  "calls (fst (structured_try E X sch b w)) = calls w"
proof -
  obtain w1 r where m: "makeOpenrouterCall E X b w = (w1, r)"
    by (cases "makeOpenrouterCall E X b w")
  then have "calls w1 = calls w"
    using makeOpenrouterCall_calls [of E X b w] by simp
  with m show ?thesis
    by (auto simp add: structured_try_def split: sum.splits safe_parse_result.splits prod.splits)
qed

lemma json_try_calls [simp]:
  "calls (fst (json_try E X b w)) = calls w"
proof -
  obtain w1 r where m: "makeOpenrouterCall E X b w = (w1, r)"
    by (cases "makeOpenrouterCall E X b w")
  then have "calls w1 = calls w"
    using makeOpenrouterCall_calls [of E X b w] by simp
  with m show ?thesis
    by (auto simp add: json_try_def split: sum.splits option.splits json.splits)
qed

lemma json_try_sent [simp]:
  "sent (fst (json_try E X b w)) = sent (fst (makeOpenrouterCall E X b w))"
  by (cases "makeOpenrouterCall E X b w")
     (auto simp add: json_try_def split: sum.splits option.splits json.splits)

lemma callInStructuredOutputMode_calls [simp]:
  "calls (fst (callInStructuredOutputMode E X sp up p bs sch sn ro w)) =
     calls w @ [(StructuredMode, p, default_to [] bs)]"
  by (auto simp add: callInStructuredOutputMode_def Let_def split: sum.splits)

lemma callInJSONMode_calls [simp]:
  "calls (fst (callInJSONMode E X sp up p bs ro w)) = calls w @ [(JsonMode, p, default_to [] bs)]"
  by (simp add: callInJSONMode_def Let_def)

lemma callInJSONMode_sent_key:
  "OPENROUTER_API_KEY E = Some key \<Longrightarrow> key \<noteq> [] \<Longrightarrow>
     sent (fst (callInJSONMode E X sp up p bs ro w)) =
       sent w @ [api_request key E (json_request sp up p (default_to [] bs) ro)]"
  by (simp add: callInJSONMode_def Let_def makeOpenrouterCall_sent_key)

lemma json_request_fields [simp]:
  "model (json_request sp up p bs ro) = model_id p"
  "models (json_request sp up p bs ro) = map model_id bs"
  "response_format (json_request sp up p bs ro) = JsonObjectFormat"
  using buildRoutingOptions_fields(5) [of p bs ro]
  by (cases "buildRoutingOptions p bs ro"; simp add: json_request_def)+

lemma json_mode_reason_fields [simp]:
  "calls (json_mode_reason a p w) = calls w"
  "sent (json_mode_reason a p w) = sent w"
  by (simp_all add: json_mode_reason_def)

lemma prompt_with_hint_fields [simp]:
  "calls (snd (prompt_with_hint X a w)) = calls w"
  "sent (snd (prompt_with_hint X a w)) = sent w"
  by (auto simp add: prompt_with_hint_def split: option.splits sum.splits)

lemma json_mode_tail_calls [simp]:
  "calls (fst (json_mode_tail E X a p bs w)) = calls w @ [(JsonMode, p, bs)]"
  by (cases "prompt_with_hint X a (json_mode_reason a p w)")
     (use prompt_with_hint_fields(1) [of X a "json_mode_reason a p w"] in
       \<open>simp add: json_mode_tail_def default_to_def\<close>)

lemma json_mode_tail_last_request:
  assumes "OPENROUTER_API_KEY E = Some key" and "key \<noteq> []"
  shows "body (last (sent (fst (json_mode_tail E X a p bs w)))) =
           json_request (systemPrompt a) (fst (prompt_with_hint X a (json_mode_reason a p w))) p bs
             (routingOptions a)"
  using assms
  by (cases "prompt_with_hint X a (json_mode_reason a p w)")
     (simp add: json_mode_tail_def callInJSONMode_sent_key default_to_def api_request_def)

lemma json_mode_tail_safeParse:
  "json_mode_tail E X (a\<lparr>schema := Some (sch\<lparr>safeParse := f\<rparr>)\<rparr>) p bs w
     = json_mode_tail E X (a\<lparr>schema := Some (sch\<lparr>safeParse := g\<rparr>)\<rparr>) p bs w"
  by (simp add: json_mode_tail_def prompt_with_hint_def json_mode_reason_def split: sum.splits)

lemma structured_attempt_calls [simp]:
  "calls (fst (structured_attempt E X a sch w)) =
     calls w @ [(StructuredMode, primaryModel a, default_to [] (backupModels a))]"
  by (simp add: structured_attempt_def default_to_def)


lemma makeLLMCall_direct:
  "structured_schema a = None \<Longrightarrow>
     makeLLMCall E X a w = json_mode_tail E X a (primaryModel a) (default_to [] (backupModels a)) w"
  by (simp add: makeLLMCall_def Let_def)

lemma makeLLMCall_after_failure:
  assumes "structured_schema a = Some sch" and "structured_attempt E X a sch w = (w1, Inl e)"
  shows "\<exists>w2. makeLLMCall E X a w =
           json_mode_tail E X a
             (case default_to [] (backupModels a) of [] \<Rightarrow> primaryModel a | b # rest \<Rightarrow> b)
             (tl (default_to [] (backupModels a))) w2"
  using assms
  by (cases "default_to [] (backupModels a)") (auto simp add: makeLLMCall_def Let_def)

text \<open>
  The attempts of one call: JSON mode alone; or structured mode, followed by JSON mode
  exactly when the structured attempt fails.
\<close>

lemma makeLLMCall_calls:
  "calls (fst (makeLLMCall E X a w)) =
     calls w @
       (case structured_schema a of
          None \<Rightarrow> [(JsonMode, primaryModel a, default_to [] (backupModels a))]
        | Some sch \<Rightarrow>
            (StructuredMode, primaryModel a, default_to [] (backupModels a))
            # (case snd (structured_attempt E X a sch w) of
                 Inr v \<Rightarrow> []
               | Inl e \<Rightarrow>
                   [(JsonMode,
                     (case default_to [] (backupModels a) of
                        [] \<Rightarrow> primaryModel a
                      | b # rest \<Rightarrow> b),
                     tl (default_to [] (backupModels a)))]))"
proof (cases "structured_schema a")
  case None
  then show ?thesis by (simp add: makeLLMCall_def Let_def)
next
  case (Some sch)
  obtain w1 r where s: "structured_attempt E X a sch w = (w1, r)"
    by (cases "structured_attempt E X a sch w")
  then have c: "calls w1 = calls w @ [(StructuredMode, primaryModel a, default_to [] (backupModels a))]"
    using structured_attempt_calls [of E X a sch w] by simp
  show ?thesis
    using Some s c
    by (cases r; cases "default_to [] (backupModels a)") (simp_all add: makeLLMCall_def Let_def)
qed

lemma new_calls_eq:
  "new_calls E X a w =
       (case structured_schema a of
          None \<Rightarrow> [(JsonMode, primaryModel a, default_to [] (backupModels a))]
        | Some sch \<Rightarrow>
            (StructuredMode, primaryModel a, default_to [] (backupModels a))
            # (case snd (structured_attempt E X a sch w) of
                 Inr v \<Rightarrow> []
               | Inl e \<Rightarrow>
                   [(JsonMode,
                     (case default_to [] (backupModels a) of
                        [] \<Rightarrow> primaryModel a
                      | b # rest \<Rightarrow> b),
                     tl (default_to [] (backupModels a)))]))"
  by (simp add: new_calls_def makeLLMCall_calls)

lemma modes_attempted_cases:
  "modes_attempted E X a w = [JsonMode] \<or> modes_attempted E X a w = [StructuredMode]
   \<or> modes_attempted E X a w = [StructuredMode, JsonMode]"
  by (simp add: modes_attempted_def new_calls_eq split: option.splits sum.splits)

lemma json_try_content:
  assumes "makeOpenrouterCall E X b w = (w1, Inr (Some (JStr raw)))"
  shows "JSON_parse X (cleanedContent raw) = Inr v \<Longrightarrow> json_try E X b w = (w1, Inr v)"
    and "JSON_parse X (cleanedContent raw) = Inl pe \<Longrightarrow>
           snd (json_try E X b w) = Inl MalformedJson
           \<and> sent (fst (json_try E X b w)) = sent w1 \<and> calls (fst (json_try E X b w)) = calls w1"
  using assms by (simp_all add: json_try_def)

lemmas run_defs =
  makeLLMCall_def structured_schema_def structured_attempt_def json_mode_tail_def
  json_mode_reason_def prompt_with_hint_def callInJSONMode_def callInStructuredOutputMode_def
  json_try_def structured_try_def makeOpenrouterCall_def send_request_def ok_branch_def
  no_content_def first_content_def first_content_optional_def rethrow_logged_def
  console_write_def enter_call_def default_to_def string_or_def ToString_value_def
  sample_call_def env_with_key_def env_without_key_def answering_def http_ok_def completion_def
  world0_def rejecting_schema_def sample_parse_def new_calls_def modes_attempted_def Let_def



text \<open>
  C2, as the code has it. When the structured attempt fails, the JSON-mode attempt that
  follows has the first backup model as its primary model and, as its backups, the given
  list without its first entry (the remaining entries in order); with no backups it has the
  original primary model (and no backups). With an API key, the request of that attempt names
  this model and these backups. Only the first entry is dropped: the promoted model is in
  the list passed onward exactly when it occurs again among the given backups.
\<close>

theorem C2_demotion:
  assumes "structured_schema a = Some sch"
    and "snd (structured_attempt E X a sch w) = Inl e"
  shows "new_calls E X a w =
           [(StructuredMode, primaryModel a, default_to [] (backupModels a)),
            (JsonMode,
             (case default_to [] (backupModels a) of [] \<Rightarrow> primaryModel a | b # rest \<Rightarrow> b),
             tl (default_to [] (backupModels a)))]
         \<and> (\<forall>key. OPENROUTER_API_KEY E = Some key \<and> key \<noteq> [] \<longrightarrow>
               model (body (last (sent (fst (makeLLMCall E X a w)))))
                 = model_id (case default_to [] (backupModels a) of
                               [] \<Rightarrow> primaryModel a | b # rest \<Rightarrow> b)
               \<and> models (body (last (sent (fst (makeLLMCall E X a w)))))
                 = map model_id (tl (default_to [] (backupModels a)))
               \<and> response_format (body (last (sent (fst (makeLLMCall E X a w)))))
                 = JsonObjectFormat)
         \<and> (\<forall>b rest. default_to [] (backupModels a) = b # rest \<longrightarrow>
               fst (snd (last (new_calls E X a w))) = b
               \<and> snd (snd (last (new_calls E X a w))) = rest
               \<and> (b \<in> set (snd (snd (last (new_calls E X a w)))) \<longleftrightarrow> b \<in> set rest))"
proof (intro conjI allI impI)
  show nc: "new_calls E X a w =
           [(StructuredMode, primaryModel a, default_to [] (backupModels a)),
            (JsonMode,
             (case default_to [] (backupModels a) of [] \<Rightarrow> primaryModel a | b # rest \<Rightarrow> b),
             tl (default_to [] (backupModels a)))]"
    using assms by (simp add: new_calls_eq)
  fix b rest
  assume bs: "default_to [] (backupModels a) = b # rest"
  show "fst (snd (last (new_calls E X a w))) = b"
    by (simp add: nc bs)
  show r: "snd (snd (last (new_calls E X a w))) = rest"
    by (simp add: nc bs)
  show "b \<in> set (snd (snd (last (new_calls E X a w)))) \<longleftrightarrow> b \<in> set rest"
    by (simp only: r)
next
  fix key
  assume k: "OPENROUTER_API_KEY E = Some key \<and> key \<noteq> []"
  obtain w1 where "structured_attempt E X a sch w = (w1, Inl e)"
    using assms(2) by (cases "structured_attempt E X a sch w") simp
  then obtain w2 where m: "makeLLMCall E X a w =
           json_mode_tail E X a
             (case default_to [] (backupModels a) of [] \<Rightarrow> primaryModel a | b # rest \<Rightarrow> b)
             (tl (default_to [] (backupModels a))) w2"
    using makeLLMCall_after_failure [OF assms(1)] by blast
  show "model (body (last (sent (fst (makeLLMCall E X a w)))))
                 = model_id (case default_to [] (backupModels a) of
                               [] \<Rightarrow> primaryModel a | b # rest \<Rightarrow> b)"
    using k by (simp add: m json_mode_tail_last_request)
  show "models (body (last (sent (fst (makeLLMCall E X a w)))))
                 = map model_id (tl (default_to [] (backupModels a)))"
    using k by (simp add: m json_mode_tail_last_request)
  show "response_format (body (last (sent (fst (makeLLMCall E X a w)))))
                 = JsonObjectFormat"
    using k by (simp add: m json_mode_tail_last_request)
qed

text \<open>
  Instances: the answer \<open>{"a":1}\<close> fails the validation of a schema that rejects every
  value; with the backups GeminiPro and Claude the JSON-mode attempt goes to GeminiPro with
  Claude as its backup, with no backups it goes to the primary model again.
\<close>

theorem C2_demotion_witness:
  "new_calls env_with_key (answering (Resolved (http_ok (completion (JStr ''{\"a\":1}'')))))
     (sample_call GPT4o [GeminiPro, Claude] (Some rejecting_schema) None) world0
     = [(StructuredMode, GPT4o, [GeminiPro, Claude]), (JsonMode, GeminiPro, [Claude])]
   \<and> models (body (last (sent (fst (makeLLMCall env_with_key
         (answering (Resolved (http_ok (completion (JStr ''{\"a\":1}'')))))
         (sample_call GPT4o [GeminiPro, Claude] (Some rejecting_schema) None) world0)))))
     = [''anthropic/claude-3.5-sonnet'']
   \<and> new_calls env_with_key (answering (Resolved (http_ok (completion (JStr ''{\"a\":1}'')))))
     (sample_call GPT4o [] (Some rejecting_schema) None) world0
     = [(StructuredMode, GPT4o, []), (JsonMode, GPT4o, [])]"
proof -
  have f1: "snd (structured_attempt env_with_key
                   (answering (Resolved (http_ok (completion (JStr ''{\"a\":1}'')))))
                   (sample_call GPT4o [GeminiPro, Claude] (Some rejecting_schema) None)
                   rejecting_schema world0)
              = Inl (JsError ''Error'' ''LLM response failed Zod validation: Required'')"
    by (simp add: run_defs)
  have f2: "snd (structured_attempt env_with_key
                   (answering (Resolved (http_ok (completion (JStr ''{\"a\":1}'')))))
                   (sample_call GPT4o [] (Some rejecting_schema) None)
                   rejecting_schema world0)
              = Inl (JsError ''Error'' ''LLM response failed Zod validation: Required'')"
    by (simp add: run_defs)
  have s1: "structured_schema (sample_call GPT4o [GeminiPro, Claude] (Some rejecting_schema) None)
              = Some rejecting_schema"
    by (simp add: structured_schema_def sample_call_def GPT4o_def plain_model_def default_to_def)
  have s2: "structured_schema (sample_call GPT4o [] (Some rejecting_schema) None)
              = Some rejecting_schema"
    by (simp add: structured_schema_def sample_call_def GPT4o_def plain_model_def default_to_def)
  show ?thesis
    using C2_demotion [OF s1 f1] C2_demotion [OF s2 f2]
    by (simp add: sample_call_def default_to_def env_with_key_def Claude_def plain_model_def)
qed

text \<open>
  C2 as stated fails: the promoted model is not always removed from the backup list passed
  onward. With the backups Claude, Claude and a structured attempt that fails, the JSON-mode
  attempt has Claude as its primary model and Claude still among its backups, and its
  request names the Claude id both as \<open>model\<close> and in \<open>models\<close>.
\<close>

theorem C2_counterexample:
  "new_calls env_with_key (answering (Resolved (http_ok (completion (JStr ''{\"a\":1}'')))))
     (sample_call GPT4o [Claude, Claude] (Some rejecting_schema) None) world0
     = [(StructuredMode, GPT4o, [Claude, Claude]), (JsonMode, Claude, [Claude])]
   \<and> model (body (last (sent (fst (makeLLMCall env_with_key
         (answering (Resolved (http_ok (completion (JStr ''{\"a\":1}'')))))
         (sample_call GPT4o [Claude, Claude] (Some rejecting_schema) None) world0)))))
     = ''anthropic/claude-3.5-sonnet''
   \<and> models (body (last (sent (fst (makeLLMCall env_with_key
         (answering (Resolved (http_ok (completion (JStr ''{\"a\":1}'')))))
         (sample_call GPT4o [Claude, Claude] (Some rejecting_schema) None) world0)))))
     = [''anthropic/claude-3.5-sonnet'']"
proof -
  define X where "X = answering (Resolved (http_ok (completion (JStr ''{\"a\":1}''))))"
  define a where "a = sample_call GPT4o [Claude, Claude] (Some rejecting_schema) None"
  have f: "snd (structured_attempt env_with_key X a rejecting_schema world0)
              = Inl (JsError ''Error'' ''LLM response failed Zod validation: Required'')"
    by (simp add: X_def a_def run_defs)
  have s: "structured_schema a = Some rejecting_schema"
    by (simp add: a_def structured_schema_def sample_call_def GPT4o_def plain_model_def
        default_to_def)
  have bs: "default_to [] (backupModels a) = [Claude, Claude]"
    and p: "primaryModel a = GPT4o"
    by (simp_all add: a_def sample_call_def default_to_def)
  obtain w1 where "structured_attempt env_with_key X a rejecting_schema world0
      = (w1, Inl (JsError ''Error'' ''LLM response failed Zod validation: Required''))"
    using f by (cases "structured_attempt env_with_key X a rejecting_schema world0") simp
  then obtain w2 where m: "makeLLMCall env_with_key X a world0
       = json_mode_tail env_with_key X a Claude [Claude] w2"
    using makeLLMCall_after_failure [OF s, of env_with_key X world0 w1] by (auto simp add: bs)
  have k: "OPENROUTER_API_KEY env_with_key = Some ''sk-or-test''" "''sk-or-test'' \<noteq> []"
    by (simp_all add: env_with_key_def)
  have "new_calls env_with_key X a world0
          = [(StructuredMode, GPT4o, [Claude, Claude]), (JsonMode, Claude, [Claude])]"
    by (simp add: new_calls_eq s f bs p)
  moreover have "model (body (last (sent (fst (makeLLMCall env_with_key X a world0)))))
          = ''anthropic/claude-3.5-sonnet''"
    by (simp add: m json_mode_tail_last_request [OF k] Claude_def plain_model_def)
  moreover have "models (body (last (sent (fst (makeLLMCall env_with_key X a world0)))))
          = [''anthropic/claude-3.5-sonnet'']"
    by (simp add: m json_mode_tail_last_request [OF k] Claude_def plain_model_def)
  ultimately show ?thesis
    by (simp add: X_def a_def)
qed

text \<open>
  C8: in the JSON-mode attempt, when the transport returns a string, a successful parse of
  the cleaned string returns the parsed value, whatever it is; a failed parse is the error
  "Failed to parse JSON output from LLM response even after cleaning." with no request sent
  and no attempt entered after it. The result of a call that goes to JSON mode directly is
  the same whatever \<open>safeParse\<close> of the caller's schema answers, and no call attempts
  anything after its JSON-mode attempt.
\<close>

theorem C8_json_mode_unvalidated_and_terminal:
  assumes "makeOpenrouterCall E X (json_request sp up p (default_to [] bs) ro)
             (enter_call JsonMode p (default_to [] bs) w) = (w1, Inr (Some (JStr raw)))"
  shows "(\<forall>v. JSON_parse X (cleanedContent raw) = Inr v
            \<longrightarrow> callInJSONMode E X sp up p bs ro w = (w1, Inr v))
       \<and> (\<forall>pe. JSON_parse X (cleanedContent raw) = Inl pe
            \<longrightarrow> snd (callInJSONMode E X sp up p bs ro w) = Inl MalformedJson
                \<and> sent (fst (callInJSONMode E X sp up p bs ro w)) = sent w1
                \<and> calls (fst (callInJSONMode E X sp up p bs ro w)) = calls w1)
       \<and> (\<forall>a sch f g w'.
            \<not> supportsStructuredOutput (primaryModel a) \<or> default_to False (forceJsonMode a)
            \<longrightarrow> makeLLMCall E X (a\<lparr>schema := Some (sch\<lparr>safeParse := f\<rparr>)\<rparr>) w'
                = makeLLMCall E X (a\<lparr>schema := Some (sch\<lparr>safeParse := g\<rparr>)\<rparr>) w')
       \<and> (\<forall>a w'. modes_attempted E X a w' = [JsonMode]
            \<or> modes_attempted E X a w' = [StructuredMode]
            \<or> modes_attempted E X a w' = [StructuredMode, JsonMode])"
proof (intro conjI allI impI)
  fix v
  assume "JSON_parse X (cleanedContent raw) = Inr v"
  then show "callInJSONMode E X sp up p bs ro w = (w1, Inr v)"
    using json_try_content(1) [OF assms] by (simp add: callInJSONMode_def Let_def)
next
  fix pe
  assume pe: "JSON_parse X (cleanedContent raw) = Inl pe"
  show "snd (callInJSONMode E X sp up p bs ro w) = Inl MalformedJson"
    using json_try_content(2) [OF assms pe]
    by (simp add: callInJSONMode_def Let_def rethrow_logged_snd MalformedJson_def)
  show "sent (fst (callInJSONMode E X sp up p bs ro w)) = sent w1"
    using json_try_content(2) [OF assms pe]
    by (simp add: callInJSONMode_def Let_def del: json_try_sent)
  show "calls (fst (callInJSONMode E X sp up p bs ro w)) = calls w1"
    using json_try_content(2) [OF assms pe]
    by (simp add: callInJSONMode_def Let_def del: json_try_calls callInJSONMode_calls)
next
  fix a :: llm_call and sch :: zod_schema and f g w'
  assume "\<not> supportsStructuredOutput (primaryModel a) \<or> default_to False (forceJsonMode a)"
  then have "structured_schema (a\<lparr>schema := Some (sch\<lparr>safeParse := f\<rparr>)\<rparr>) = None"
    and "structured_schema (a\<lparr>schema := Some (sch\<lparr>safeParse := g\<rparr>)\<rparr>) = None"
    by (auto simp add: structured_schema_def)
  then show "makeLLMCall E X (a\<lparr>schema := Some (sch\<lparr>safeParse := f\<rparr>)\<rparr>) w'
                = makeLLMCall E X (a\<lparr>schema := Some (sch\<lparr>safeParse := g\<rparr>)\<rparr>) w'"
    using json_mode_tail_safeParse [where E = E and X = X and a = a and sch = sch and f = f
        and g = g and p = "primaryModel a" and bs = "default_to [] (backupModels a)" and w = w']
    by (simp add: makeLLMCall_direct)
next
  fix a w'
  show "modes_attempted E X a w' = [JsonMode] \<or> modes_attempted E X a w' = [StructuredMode]
            \<or> modes_attempted E X a w' = [StructuredMode, JsonMode]"
    by (rule modes_attempted_cases)
qed

text \<open>
  Instances: a fenced \<open>{"a":1}\<close> is returned parsed; the answer \<open>Sorry.\<close> ends the call
  with the parse error after its one request; and a call with \<open>forceJsonMode\<close> returns
  \<open>{a: 1}\<close> although the caller's schema rejects it.
\<close>

theorem C8_json_mode_unvalidated_and_terminal_witness:
  "snd (callInJSONMode env_with_key
          (answering (Resolved (http_ok (completion (JStr ''```json\<newline>{\"a\":1}\<newline>```'')))))
          None ''Return a JSON object.'' GPT4o None None world0)
     = Inr (JObj [(''a'', JNum (Finite 1))])
   \<and> snd (callInJSONMode env_with_key
          (answering (Resolved (http_ok (completion (JStr ''Sorry.'')))))
          None ''Return a JSON object.'' GPT4o None None world0)
     = Inl MalformedJson
   \<and> length (sent (fst (callInJSONMode env_with_key
          (answering (Resolved (http_ok (completion (JStr ''Sorry.'')))))
          None ''Return a JSON object.'' GPT4o None None world0))) = 1
   \<and> safeParse rejecting_schema (JObj [(''a'', JNum (Finite 1))])
       = ParseFailure \<lparr>error_message = ''Required'', error_format = JObj []\<rparr>
   \<and> snd (makeLLMCall env_with_key
          (answering (Resolved (http_ok (completion (JStr ''```json\<newline>{\"a\":1}\<newline>```'')))))
          (sample_call GPT4o [] (Some rejecting_schema) (Some True)) world0)
     = Inr (JObj [(''a'', JNum (Finite 1))])"
proof -
  have t1: "makeOpenrouterCall env_with_key
          (answering (Resolved (http_ok (completion (JStr ''```json\<newline>{\"a\":1}\<newline>```'')))))
          (json_request None ''Return a JSON object.'' GPT4o (default_to [] None) None)
          (enter_call JsonMode GPT4o (default_to [] None) world0)
        = ((enter_call JsonMode GPT4o [] world0)
             \<lparr>sent := [api_request ''sk-or-test'' env_with_key
                        (json_request None ''Return a JSON object.'' GPT4o [] None)]\<rparr>,
           Inr (Some (JStr ''```json\<newline>{\"a\":1}\<newline>```'')))"
    by (simp add: run_defs)
  have t2: "makeOpenrouterCall env_with_key
          (answering (Resolved (http_ok (completion (JStr ''Sorry.'')))))
          (json_request None ''Return a JSON object.'' GPT4o (default_to [] None) None)
          (enter_call JsonMode GPT4o (default_to [] None) world0)
        = ((enter_call JsonMode GPT4o [] world0)
             \<lparr>sent := [api_request ''sk-or-test'' env_with_key
                        (json_request None ''Return a JSON object.'' GPT4o [] None)]\<rparr>,
           Inr (Some (JStr ''Sorry.'')))"
    by (simp add: run_defs)
  have r: "snd (makeLLMCall env_with_key
          (answering (Resolved (http_ok (completion (JStr ''```json\<newline>{\"a\":1}\<newline>```'')))))
          (sample_call GPT4o [] (Some rejecting_schema) (Some True)) world0)
     = Inr (JObj [(''a'', JNum (Finite 1))])"
    by (simp add: run_defs fenced_clean GPT4o_def plain_model_def)
  show ?thesis
    using C8_json_mode_unvalidated_and_terminal [OF t1]
      C8_json_mode_unvalidated_and_terminal [OF t2] r
    by (simp add: fenced_clean prose_clean answering_def sample_parse_def rejecting_schema_def
        enter_call_def world0_def)
qed

end
